theory Spec2Isabelle
  imports Main "HOL-Library.Word"
begin

section \<open>kstrace: the command layer (cmd/cmd.go)\<close>

text \<open>
  The command of \<^verbatim>\<open>cmd/cmd.go\<close> resolves the target pods, validates the flags and
  then runs one tracer per target inside a namespace created for the run. The functions
  of the file are embedded here one by one, under their own names. What the file calls
  in other packages (the resource builder's visit, \<^verbatim>\<open>time.ParseDuration\<close>, the
  namespace functions and the tracer methods of \<^verbatim>\<open>pkg/kstrace\<close>) reaches the model
  through the record \<open>env\<close>: one field per callee, holding what the callee returns.
\<close>

subsection \<open>Errors, pods and the command's state\<close>

text \<open>
  A Go \<^verbatim>\<open>error\<close> is an \<open>error option\<close>, \<open>None\<close> for \<^verbatim>\<open>nil\<close>. The constructors are
  the errors the file builds with \<^verbatim>\<open>fmt.Errorf\<close>, the errors of
  \<^verbatim>\<open>time.ParseDuration\<close>, and \<open>ErrExternal\<close> for whatever a collaborator returns.
\<close>

datatype GroupVersionKind = GVK string string string

datatype error =
    ErrNoTargetPod
  | ErrMultiplePodsStdout
  | ErrMultipleContainersStdout string
  | ErrNotSupported GroupVersionKind
  | ErrInvalidDuration string
  | ErrMissingUnit string
  | ErrUnknownUnit string string
  | ErrExternal string

text \<open>
  Of \<^verbatim>\<open>corev1.Pod\<close> the model keeps the identity and the container names:
  \<^verbatim>\<open>Name\<close>, \<^verbatim>\<open>Namespace\<close>, \<^verbatim>\<open>Spec.NodeName\<close> and the names of
  \<^verbatim>\<open>Spec.Containers\<close>.
\<close>

record Pod =
  Name :: string
  Namespace :: string
  NodeName :: string
  Containers :: "string list"

type_synonym addr = nat

type_synonym duration = "64 word"

text \<open>
  \<^verbatim>\<open>KubeStraceCommand\<close>: the string flags (pointers to strings that are never nil,
  \<^verbatim>\<open>NewKubeStraceDefaults\<close> allocates each), the converted timeout, the tracers (a
  slice of pointers to tracer objects) and the target pods. A nil slice and an empty
  slice are both \<open>[]\<close>: the file only takes their length, ranges over them and appends.
\<close>

record KubeStraceCommand =
  traceImage :: string
  traceTimeoutStr :: string
  socketPath :: string
  outputDirectory :: string
  traceTimeout :: duration
  tracers :: "addr list"
  targetPods :: "Pod list"

definition NewKubeStraceDefaults :: KubeStraceCommand where
  "NewKubeStraceDefaults =
     \<lparr>traceImage = ''quay.io/mwasher/crictl:0.0.2'',
      traceTimeoutStr = ''0'',
      socketPath = ''/run/crio/crio.sock'',
      outputDirectory = ''strace-collection'',
      traceTimeout = 0,
      tracers = [],
      targetPods = []\<rparr>"

subsection \<open>processResources\<close>

text \<open>
  \<^verbatim>\<open>builder.Do().Visit(fn)\<close> hands the resolved objects to the callback one after the
  other. A step of the visit is an object handed over with a nil error, or an error
  (handed to the callback, which returns it at once, or returned by the visit itself).
  The builder of \<^verbatim>\<open>Complete\<close> never asks to continue on error, so the visit stops at the
  first error the callback returns and returns it.
\<close>

datatype object = PodObject Pod | OtherObject GroupVersionKind

datatype visit_step = VisitObject object | VisitError error

text \<open>The callback of \<^verbatim>\<open>processResources\<close>, with \<^verbatim>\<open>podSlice\<close> passed through.\<close>

fun visit_fn :: "visit_step \<Rightarrow> Pod list \<Rightarrow> error option \<times> Pod list" where
  "visit_fn (VisitError e) podSlice = (Some e, podSlice)"
| "visit_fn (VisitObject (PodObject p)) podSlice = (None, podSlice @ [p])"
| "visit_fn (VisitObject (OtherObject k)) podSlice = (Some (ErrNotSupported k), podSlice)"

fun Visit :: "visit_step list \<Rightarrow> Pod list \<Rightarrow> error option \<times> Pod list" where
  "Visit [] podSlice = (None, podSlice)"
| "Visit (s # ss) podSlice =
     (case visit_fn s podSlice of
        (Some e, podSlice') \<Rightarrow> (Some e, podSlice')
      | (None, podSlice') \<Rightarrow> Visit ss podSlice')"

definition processResources :: "visit_step list \<Rightarrow> Pod list \<times> error option" where
  "processResources steps =
     (case Visit steps [] of
        (Some e, podSlice) \<Rightarrow> ([], Some e)
      | (None, podSlice) \<Rightarrow> (podSlice, None))"

subsection \<open>time.ParseDuration\<close>

text \<open>
  \<^verbatim>\<open>Validate\<close> converts the timeout flag with the Go standard library's
  \<^verbatim>\<open>time.ParseDuration\<close>. The library is no part of the repository; the function is
  written out here as the library has it (unsigned 64-bit accumulation, as in current
  Go releases; older releases accumulate in a signed integer and treat the sign of the
  string the same way), so that \<^verbatim>\<open>Validate\<close> can be run on a concrete flag. One
  sub-computation is floating point, the nanoseconds of a fractional part,
  \<^verbatim>\<open>uint64(float64(f) * (float64(unit) / scale))\<close>: it is the parameter \<open>fl\<close>, given
  \<open>f\<close>, the scale (a power of ten below \<open>10^20\<close>, exact in a float64) and the unit.
  Its value for the library is \<open>fl_float64\<close>, defined after the parser.
\<close>

definition is_digit :: "char \<Rightarrow> bool" where
  "is_digit c = ((48::nat) \<le> of_char c \<and> of_char c \<le> (57::nat))"

definition digit_val :: "char \<Rightarrow> 64 word" where
  "digit_val c = of_nat (of_char c - (48::nat))"

text \<open>\<^verbatim>\<open>leadingInt\<close>: \<open>None\<close> is \<^verbatim>\<open>errLeadingInt\<close>.\<close>

fun leadingInt :: "64 word \<Rightarrow> string \<Rightarrow> (64 word \<times> string) option" where
  "leadingInt x [] = Some (x, [])"
| "leadingInt x (c # s) =
     (if \<not> is_digit c then Some (x, c # s)
      else if x > 2 ^ 63 div 10 then None
      else (let x' = x * 10 + digit_val c
            in if x' > 2 ^ 63 then None else leadingInt x' s))"

text \<open>\<^verbatim>\<open>leadingFraction\<close>: once \<^verbatim>\<open>overflow\<close> is set the digits are skipped.\<close>

fun leadingFraction :: "64 word \<Rightarrow> nat \<Rightarrow> bool \<Rightarrow> string \<Rightarrow> 64 word \<times> nat \<times> string" where
  "leadingFraction x scale overflow [] = (x, scale, [])"
| "leadingFraction x scale overflow (c # s) =
     (if \<not> is_digit c then (x, scale, c # s)
      else if overflow then leadingFraction x scale overflow s
      else if x > (2 ^ 63 - 1) div 10 then leadingFraction x scale True s
      else (let y = x * 10 + digit_val c
            in if y > 2 ^ 63 then leadingFraction x scale True s
               else leadingFraction y (scale * 10) overflow s))"

text \<open>
  \<^verbatim>\<open>unitMap\<close>. The two spellings of the microsecond with a micro sign are UTF-8, two
  bytes for the sign.
\<close>

definition unitMap :: "string \<Rightarrow> 64 word option" where
  "unitMap u =
     (if u = ''ns'' then Some 1
      else if u = ''us'' then Some 1000
      else if u = [char_of (0xC2::nat), char_of (0xB5::nat), CHR ''s''] then Some 1000
      else if u = [char_of (0xCE::nat), char_of (0xBC::nat), CHR ''s''] then Some 1000
      else if u = ''ms'' then Some 1000000
      else if u = ''s'' then Some 1000000000
      else if u = ''m'' then Some 60000000000
      else if u = ''h'' then Some 3600000000000
      else None)"

definition unit_char :: "char \<Rightarrow> bool" where
  "unit_char c = (\<not> (c = CHR ''.'' \<or> is_digit c))"

text \<open>
  The optional fraction \<^verbatim>\<open>(\.[0-9]*)?\<close> after the integer part: \<open>f\<close>, the scale, the
  rest of the string and \<^verbatim>\<open>post\<close> (whether a digit was consumed after the period).
\<close>

definition fraction_part :: "string \<Rightarrow> 64 word \<times> nat \<times> string \<times> bool" where
  "fraction_part s1 =
     (if s1 \<noteq> [] \<and> hd s1 = CHR ''.''
      then (case leadingFraction 0 1 False (tl s1) of
              (f, scale, r) \<Rightarrow> (f, scale, r, length (tl s1) \<noteq> length r))
      else (0, 1, s1, False))"

text \<open>
  One turn of the loop of \<^verbatim>\<open>ParseDuration\<close> up to the update of \<^verbatim>\<open>d\<close>: the
  nanoseconds \<open>v\<close> of the next number with its unit and the rest of the string, or the
  error returned.
\<close>

definition parse_term :: "(64 word \<Rightarrow> nat \<Rightarrow> 64 word \<Rightarrow> 64 word) \<Rightarrow> string \<Rightarrow> string
    \<Rightarrow> error + (64 word \<times> string)" where
  "parse_term fl orig s =
     (if \<not> (s \<noteq> [] \<and> (hd s = CHR ''.'' \<or> is_digit (hd s))) then Inl (ErrInvalidDuration orig)
      else case leadingInt 0 s of
        None \<Rightarrow> Inl (ErrInvalidDuration orig)
      | Some (v, s1) \<Rightarrow>
         (case fraction_part s1 of
            (f, scale, s2, post) \<Rightarrow>
              if \<not> (length s \<noteq> length s1) \<and> \<not> post then Inl (ErrInvalidDuration orig)
              else (let u = takeWhile unit_char s2; s3 = dropWhile unit_char s2
                    in if u = [] then Inl (ErrMissingUnit orig)
                       else case unitMap u of
                         None \<Rightarrow> Inl (ErrUnknownUnit u orig)
                       | Some unit \<Rightarrow>
                           if v > 2 ^ 63 div unit then Inl (ErrInvalidDuration orig)
                           else if f > 0
                           then (let v' = v * unit + fl f scale unit
                                 in if v' > 2 ^ 63 then Inl (ErrInvalidDuration orig)
                                    else Inr (v', s3))
                           else Inr (v * unit, s3))))"

lemma leadingInt_length: "leadingInt x s = Some (v, r) \<Longrightarrow> length r \<le> length s"
  by (induction x s rule: leadingInt.induct) (auto simp: Let_def split: if_splits)

lemma leadingFraction_length: "leadingFraction x sc ov s = (f, sc', r) \<Longrightarrow> length r \<le> length s"
  by (induction x sc ov s rule: leadingFraction.induct) (auto simp: Let_def split: if_splits)

lemma dropWhile_shorter: "takeWhile P s \<noteq> [] \<Longrightarrow> length (dropWhile P s) < length s"
  by (cases s) (auto simp: length_dropWhile_le le_imp_less_Suc split: if_splits)

lemma fraction_part_length: "fraction_part s1 = (f, sc, s2, post) \<Longrightarrow> length s2 \<le> length s1"
  by (auto simp: fraction_part_def split: if_splits prod.splits
      dest!: leadingFraction_length)

lemma parse_term_shorter:
  assumes "parse_term fl orig s = Inr (v, r)"
  shows "length r < length s"
proof -
  from assms obtain v0 s1 where li: "leadingInt 0 s = Some (v0, s1)"
    by (auto simp: parse_term_def split: if_splits option.splits)
  obtain f scale s2 post where q: "fraction_part s1 = (f, scale, s2, post)"
    by (cases "fraction_part s1") auto
  have l1: "length s1 \<le> length s" using li by (rule leadingInt_length)
  have l2: "length s2 \<le> length s1" using q by (rule fraction_part_length)
  from assms li q have "takeWhile unit_char s2 \<noteq> [] \<and> r = dropWhile unit_char s2"
    by (auto simp: parse_term_def Let_def split: if_splits option.splits)
  then have "length r < length s2" by (simp add: dropWhile_shorter)
  with l1 l2 show ?thesis by simp
qed

text \<open>The loop \<^verbatim>\<open>for s != ""\<close>, with \<^verbatim>\<open>d\<close> and \<^verbatim>\<open>s\<close> as arguments.\<close>

function parse_loop :: "(64 word \<Rightarrow> nat \<Rightarrow> 64 word \<Rightarrow> 64 word) \<Rightarrow> string \<Rightarrow> 64 word \<Rightarrow> string
    \<Rightarrow> error + 64 word" where
  "parse_loop fl orig d s =
     (if s = [] then Inr d
      else case parse_term fl orig s of
        Inl e \<Rightarrow> Inl e
      | Inr (v, r) \<Rightarrow>
          (let d' = d + v
           in if d' > 2 ^ 63 then Inl (ErrInvalidDuration orig)
              else parse_loop fl orig d' r))"
  by pat_completeness auto
termination
  by (relation "measure (\<lambda>(fl, orig, d, s). length s)") (auto dest: parse_term_shorter)

declare parse_loop.simps [simp del]

text \<open>
  \<^verbatim>\<open>ParseDuration\<close> returns a duration (a signed 64-bit count of nanoseconds, here the
  word that \<open>sint\<close> reads) and an error; the duration is 0 when the error is set.
\<close>

definition ParseDuration :: "(64 word \<Rightarrow> nat \<Rightarrow> 64 word \<Rightarrow> 64 word) \<Rightarrow> string
    \<Rightarrow> duration \<times> error option" where
  "ParseDuration fl orig =
     (let signed = (orig \<noteq> [] \<and> (hd orig = CHR ''-'' \<or> hd orig = CHR ''+''));
          neg = (signed \<and> hd orig = CHR ''-'');
          s = (if signed then tl orig else orig)
      in if s = ''0'' then (0, None)
         else if s = [] then (0, Some (ErrInvalidDuration orig))
         else case parse_loop fl orig 0 s of
           Inl e \<Rightarrow> (0, Some e)
         | Inr d \<Rightarrow>
             if neg then (- d, None)
             else if d > 2 ^ 63 - 1 then (0, Some (ErrInvalidDuration orig))
             else (d, None))"

text \<open>
  The floating-point step itself, in IEEE 754 double precision: every operation
  returns the double nearest to the exact result, ties to the even mantissa. The values
  here are positive and far from the ends of the exponent range (between \<open>10^-19\<close> and
  \<open>10^19\<close>), so a double is a mantissa and an exponent: the pair \<open>(m, e)\<close> stands for
  \<open>m * 2^e\<close>, with \<open>m\<close> of 53 bits (or \<open>2^53\<close>, when the rounding carries).
\<close>

fun bitlen :: "nat \<Rightarrow> nat" where
  "bitlen n = (if n = 0 then 0 else Suc (bitlen (n div 2)))"

declare bitlen.simps [simp del]

text \<open>The quotient \<open>a / b\<close> rounded to the nearest natural number, ties to even.\<close>

definition round_half_even :: "nat \<Rightarrow> nat \<Rightarrow> nat" where
  "round_half_even a b =
     (let q = a div b; r = a mod b
      in if 2 * r < b then q
         else if b < 2 * r then q + 1
         else if even q then q else q + 1)"

text \<open>
  The double nearest to the fraction \<open>a / b\<close> (\<open>a\<close> and \<open>b\<close> positive): \<open>l\<close> is the
  integer part of its binary logarithm, one of \<open>k\<close> and \<open>k - 1\<close>, and the mantissa is
  the fraction scaled to 53 bits and rounded.
\<close>

definition float64_of_frac :: "nat \<Rightarrow> nat \<Rightarrow> nat \<times> int" where
  "float64_of_frac a b =
     (let k = int (bitlen a) - int (bitlen b);
          l = (if b * 2 ^ nat k \<le> a * 2 ^ nat (- k) then k else k - 1);
          e = l - 52
      in (round_half_even (a * 2 ^ nat (- e)) (b * 2 ^ nat e), e))"

definition float64_mul :: "nat \<times> int \<Rightarrow> nat \<times> int \<Rightarrow> nat \<times> int" where
  "float64_mul x y =
     (let e = snd x + snd y
      in float64_of_frac (fst x * fst y * 2 ^ nat e) (2 ^ nat (- e)))"

text \<open>The conversion of a double to \<^verbatim>\<open>uint64\<close> drops the fraction.\<close>

definition float64_trunc :: "nat \<times> int \<Rightarrow> nat" where
  "float64_trunc x = (fst x * 2 ^ nat (snd x)) div 2 ^ nat (- snd x)"

text \<open>
  \<^verbatim>\<open>uint64(float64(f) * (float64(unit) / scale))\<close>: the conversion of \<open>f\<close> rounds (an
  \<open>f\<close> of more than 53 bits is not a double), the unit and the scale are doubles as
  they are, the quotient and the product round.
\<close>

definition fl_float64 :: "64 word \<Rightarrow> nat \<Rightarrow> 64 word \<Rightarrow> 64 word" where
  "fl_float64 f scale unit =
     of_nat (float64_trunc
       (float64_mul (float64_of_frac (unat f) 1) (float64_of_frac (unat unit) scale)))"

subsection \<open>The environment and the state\<close>

text \<open>
  What the callees return. \<^verbatim>\<open>Complete\<close> sets the log level and builds the client set
  and the resource builder: the model keeps its error only. \<^verbatim>\<open>CreateNamespace\<close>
  returns a pointer to a namespace object and an error: the pointer is \<open>None\<close> when nil,
  otherwise the \<^verbatim>\<open>Name\<close> of the object. \<^verbatim>\<open>Start\<close>, \<^verbatim>\<open>Stop\<close> and
  \<^verbatim>\<open>Cleanup\<close> are methods of a tracer, called through a pointer to it; what they
  return is a function of the tracer (\<^verbatim>\<open>Run\<close> calls each of them at most once on a
  tracer it constructs, and in a fixed order).
\<close>

record env =
  env_Complete :: "error option"
  env_Visit :: "visit_step list"
  env_ParseDuration :: "string \<Rightarrow> duration \<times> error option"
  env_CreateNamespace :: "string option \<times> error option"
  env_Start :: "addr \<Rightarrow> error option"
  env_Stop :: "addr \<Rightarrow> error option"
  env_Cleanup :: "addr \<Rightarrow> error option"
  env_CleanupNamespace :: "string \<Rightarrow> error option"

text \<open>
  Modelled from the spec: the tracer object of \<^verbatim>\<open>pkg/kstrace\<close>, a type declared
  outside \<^verbatim>\<open>cmd/cmd.go\<close>. The spec's Tracer has a target reference, the namespace of
  its helper pod, the trace image, the socket path, the trace duration and the output
  destination: the fields are the arguments of the constructor, without the client set
  and the REST configuration (opaque handles). The target is a \<^verbatim>\<open>*corev1.Pod\<close>: the
  address of a pod variable.
\<close>

record KStracer =
  tracerImage :: string
  tracerTarget :: addr
  tracerNamespace :: string
  tracerSocketPath :: string
  tracerTimeout :: duration
  tracerOutput :: string

text \<open>
  The calls made to the cluster and to the tracers, in the order made, each with what
  it returned.
\<close>

datatype event =
    CreateNamespace "string option" "error option"
  | Start addr "error option"
  | Stop addr "error option"
  | Cleanup addr "error option"
  | CleanupNamespace string "error option"

text \<open>
  The state: the receiver \<^verbatim>\<open>kCmd\<close>, the pod variables whose address is taken (an
  address is an index of \<open>pod_vars\<close>), the tracer objects allocated (a pointer to a
  tracer is an index of \<open>tracer_objs\<close>) and the calls made so far.
\<close>

record state =
  kCmd :: KubeStraceCommand
  pod_vars :: "Pod list"
  tracer_objs :: "KStracer list"
  calls :: "event list"

text \<open>
  A pod variable starts as the zero value of its type. Its address is the next free
  index.
\<close>

definition zero_Pod :: Pod where
  "zero_Pod = \<lparr>Name = [], Namespace = [], NodeName = [], Containers = []\<rparr>"

definition new_pod_var :: "state \<Rightarrow> addr \<times> state" where
  "new_pod_var st = (length (pod_vars st), st\<lparr>pod_vars := pod_vars st @ [zero_Pod]\<rparr>)"

text \<open>
  Modelled from the spec: \<^verbatim>\<open>NewKStracer\<close> of \<^verbatim>\<open>pkg/kstrace\<close>, declared outside
  \<^verbatim>\<open>cmd/cmd.go\<close>. It allocates a tracer object that holds its arguments and returns
  the pointer to it.
\<close>

definition NewKStracer :: "string \<Rightarrow> addr \<Rightarrow> string \<Rightarrow> string \<Rightarrow> duration \<Rightarrow> string \<Rightarrow> state
    \<Rightarrow> addr \<times> state" where
  "NewKStracer img tgt ns sock tmo outp st =
     (length (tracer_objs st),
      st\<lparr>tracer_objs := tracer_objs st @
        [\<lparr>tracerImage = img, tracerTarget = tgt, tracerNamespace = ns,
          tracerSocketPath = sock, tracerTimeout = tmo, tracerOutput = outp\<rparr>]\<rparr>)"

subsection \<open>Validate\<close>

definition Validate :: "env \<Rightarrow> state \<Rightarrow> error option \<times> state" where
  "Validate env st =
     (case processResources (env_Visit env) of
        (pods, Some e) \<Rightarrow> (Some e, st\<lparr>kCmd := (kCmd st)\<lparr>targetPods := pods\<rparr>\<rparr>)
      | (pods, None) \<Rightarrow>
         (let k = (kCmd st)\<lparr>targetPods := pods\<rparr>; st1 = st\<lparr>kCmd := k\<rparr>
          in if length (targetPods k) < 1 then (Some ErrNoTargetPod, st1)
             else if length (targetPods k) > 1 \<and> outputDirectory k = ''-''
             then (Some ErrMultiplePodsStdout, st1)
             else if length (Containers (targetPods k ! 0)) > 1 \<and> outputDirectory k = ''-''
             then (Some (ErrMultipleContainersStdout (Name (targetPods k ! 0))), st1)
             else (case env_ParseDuration env (traceTimeoutStr k) of
                     (d, Some e) \<Rightarrow> (Some e, st1\<lparr>kCmd := k\<lparr>traceTimeout := d\<rparr>\<rparr>)
                   | (d, None) \<Rightarrow> (None, st1\<lparr>kCmd := k\<lparr>traceTimeout := d\<rparr>\<rparr>))))"

subsection \<open>Run\<close>

text \<open>
  A function either returns or panics. \<^verbatim>\<open>Run\<close> panics in one place: \<^verbatim>\<open>ns.Name\<close>,
  an argument of the first \<^verbatim>\<open>defer\<close> and so evaluated when the \<^verbatim>\<open>defer\<close> statement
  is executed, dereferences \<^verbatim>\<open>ns\<close>.
\<close>

datatype 'a outcome = Return 'a | Panic

text \<open>
  A \<^verbatim>\<open>defer\<close> statement evaluates the receiver and the arguments of its call and pushes
  the call; the pushed calls run when the function returns, the last pushed first. The
  stack is a list with its top at the head. What a deferred call returns is dropped.
\<close>

datatype deferred = DeferCleanupNamespace string | DeferCleanup addr | DeferStop addr

fun call_deferred :: "env \<Rightarrow> deferred \<Rightarrow> event" where
  "call_deferred env (DeferCleanupNamespace name) = CleanupNamespace name (env_CleanupNamespace env name)"
| "call_deferred env (DeferCleanup t) = Cleanup t (env_Cleanup env t)"
| "call_deferred env (DeferStop t) = Stop t (env_Stop env t)"

fun run_deferred :: "env \<Rightarrow> deferred list \<Rightarrow> state \<Rightarrow> state" where
  "run_deferred env [] st = st"
| "run_deferred env (d # ds) st = run_deferred env ds (st\<lparr>calls := calls st @ [call_deferred env d]\<rparr>)"

text \<open>
  The variable of a \<^verbatim>\<open>for ... range\<close> statement: one variable for the whole loop in Go
  before 1.22 (the language of this repository's time), a new one in every iteration
  from Go 1.22 on. \<^verbatim>\<open>Run\<close> takes the address of \<^verbatim>\<open>targetPod\<close>, so the variable lives
  on the heap and the two differ.
\<close>

datatype loopvar = PerLoop | PerIteration

definition loop_var :: "loopvar \<Rightarrow> addr \<Rightarrow> state \<Rightarrow> addr \<times> state" where
  "loop_var lv a st = (case lv of PerLoop \<Rightarrow> (a, st) | PerIteration \<Rightarrow> new_pod_var st)"

text \<open>
  The iterations of the first loop of \<^verbatim>\<open>Run\<close>: \<open>a\<close> is the address of the loop's
  variable (under \<open>PerIteration\<close> it is not used: every iteration declares its own),
  \<open>ns\<close> is \<^verbatim>\<open>ns.Name\<close>. An iteration copies the pod into the variable, constructs the
  tracer with the variable's address and appends the tracer to \<^verbatim>\<open>kCmd.tracers\<close>.
\<close>

fun construct_loop :: "loopvar \<Rightarrow> string \<Rightarrow> addr \<Rightarrow> Pod list \<Rightarrow> state \<Rightarrow> state" where
  "construct_loop lv ns a [] st = st"
| "construct_loop lv ns a (p # ps) st =
     (case loop_var lv a st of
        (a1, st1) \<Rightarrow>
          (let st2 = st1\<lparr>pod_vars := (pod_vars st1)[a1 := p]\<rparr>;
               k = kCmd st2
           in case NewKStracer (traceImage k) a1 ns (socketPath k) (traceTimeout k)
                     (outputDirectory k) st2 of
                (tracer, st3) \<Rightarrow>
                  construct_loop lv ns a1 ps
                    (st3\<lparr>kCmd := (kCmd st3)\<lparr>tracers := tracers (kCmd st3) @ [tracer]\<rparr>\<rparr>)))"

text \<open>
  A whole \<^verbatim>\<open>for _, targetPod := range pods\<close> statement with the body of the first
  loop: under \<open>PerLoop\<close> the statement declares its variable once, before the first
  iteration. In \<^verbatim>\<open>Run\<close> the range expression is \<^verbatim>\<open>kCmd.targetPods\<close>, evaluated once,
  when the statement is entered.
\<close>

definition range_loop :: "loopvar \<Rightarrow> string \<Rightarrow> Pod list \<Rightarrow> state \<Rightarrow> state" where
  "range_loop lv ns pods st =
     (case lv of
        PerLoop \<Rightarrow> (case new_pod_var st of (a, st1) \<Rightarrow> construct_loop lv ns a pods st1)
      | PerIteration \<Rightarrow> construct_loop lv ns 0 pods st)"

definition construct_tracers :: "loopvar \<Rightarrow> string \<Rightarrow> state \<Rightarrow> state" where
  "construct_tracers lv ns st = range_loop lv ns (targetPods (kCmd st)) st"

text \<open>
  The second loop: the error of \<^verbatim>\<open>Start\<close>, the stack of deferred calls and the
  state.
\<close>

fun start_loop :: "env \<Rightarrow> addr list \<Rightarrow> deferred list \<Rightarrow> state
    \<Rightarrow> error option \<times> deferred list \<times> state" where
  "start_loop env [] ds st = (None, ds, st)"
| "start_loop env (t # ts) ds st =
     (let err = env_Start env t;
          st1 = st\<lparr>calls := calls st @ [Start t err]\<rparr>;
          ds1 = DeferStop t # DeferCleanup t # ds
      in case err of
           Some e \<Rightarrow> (Some e, ds1, st1)
         | None \<Rightarrow> start_loop env ts ds1 st1)"

definition Run :: "loopvar \<Rightarrow> env \<Rightarrow> state \<Rightarrow> error option outcome \<times> state" where
  "Run lv env st =
     (case env_CreateNamespace env of
        (ns, err) \<Rightarrow>
          (let st1 = st\<lparr>calls := calls st @ [CreateNamespace ns err]\<rparr>
           in case ns of
                None \<Rightarrow> (Panic, st1)
              | Some name \<Rightarrow>
                  (let ds = [DeferCleanupNamespace name]
                   in case err of
                        Some e \<Rightarrow> (Return (Some e), run_deferred env ds st1)
                      | None \<Rightarrow>
                          (let st2 = construct_tracers lv name st1
                           in case start_loop env (tracers (kCmd st2)) ds st2 of
                                (err1, ds1, st3) \<Rightarrow>
                                  (Return err1, run_deferred env ds1 st3)))))"

subsection \<open>RunE\<close>

text \<open>
  The command's \<^verbatim>\<open>RunE\<close>: \<^verbatim>\<open>Complete\<close>, \<^verbatim>\<open>Validate\<close>, \<^verbatim>\<open>Run\<close>, each only when
  the one before returned nil. \<^verbatim>\<open>NewKubeStraceCommand\<close> gives it a receiver with the
  default flags (which the command line may replace), no tracers and no target pods.
\<close>

definition RunE :: "loopvar \<Rightarrow> env \<Rightarrow> state \<Rightarrow> error option outcome \<times> state" where
  "RunE lv env st =
     (case env_Complete env of
        Some e \<Rightarrow> (Return (Some e), st)
      | None \<Rightarrow>
          (case Validate env st of
             (Some e, st1) \<Rightarrow> (Return (Some e), st1)
           | (None, st1) \<Rightarrow>
               (case Run lv env st1 of
                  (Return (Some e), st2) \<Rightarrow> (Return (Some e), st2)
                | (Return None, st2) \<Rightarrow> (Return None, st2)
                | (Panic, st2) \<Rightarrow> (Panic, st2))))"

definition init_state :: "KubeStraceCommand \<Rightarrow> state" where
  "init_state k = \<lparr>kCmd = k, pod_vars = [], tracer_objs = [], calls = []\<rparr>"

text \<open>
  The tracer object that \<^verbatim>\<open>Run\<close> has \<^verbatim>\<open>NewKStracer\<close> build from the flags of the
  command, the name of the namespace and the address of a pod variable.
\<close>

definition tracer_for :: "KubeStraceCommand \<Rightarrow> string \<Rightarrow> addr \<Rightarrow> KStracer" where
  "tracer_for k ns a =
     \<lparr>tracerImage = traceImage k, tracerTarget = a, tracerNamespace = ns,
      tracerSocketPath = socketPath k, tracerTimeout = traceTimeout k,
      tracerOutput = outputDirectory k\<rparr>"

section \<open>Concrete runs\<close>

text \<open>
  Pods, environments and states for the closed instances below. \<open>env_ok\<close> resolves two
  pods, starts every tracer and fails every cleanup call; \<open>env_fail\<close> resolves three
  pods and fails the \<^verbatim>\<open>Start\<close> of the second tracer; \<open>env_ns_fail\<close> and
  \<open>env_ns_nil\<close> fail \<^verbatim>\<open>CreateNamespace\<close>, with and without a namespace object.
\<close>

definition web1 :: Pod where
  "web1 = \<lparr>Name = ''web-1'', Namespace = ''prod'', NodeName = ''node-a'', Containers = [''app'']\<rparr>"
definition web2 :: Pod where
  "web2 = \<lparr>Name = ''web-2'', Namespace = ''prod'', NodeName = ''node-b'', Containers = [''app'']\<rparr>"
definition web3 :: Pod where
  "web3 = \<lparr>Name = ''web-3'', Namespace = ''prod'', NodeName = ''node-b'', Containers = [''app'', ''sidecar'']\<rparr>"

definition env_ok :: env where
  "env_ok = \<lparr>env_Complete = None,
     env_Visit = [VisitObject (PodObject web1), VisitObject (PodObject web2)],
     env_ParseDuration = ParseDuration fl_float64,
     env_CreateNamespace = (Some ''kstrace-1'', None),
     env_Start = (\<lambda>t. None),
     env_Stop = (\<lambda>t. Some (ErrExternal ''stop failed'')),
     env_Cleanup = (\<lambda>t. Some (ErrExternal ''pod delete failed'')),
     env_CleanupNamespace = (\<lambda>n. Some (ErrExternal ''namespace delete failed''))\<rparr>"

definition st_two :: state where
  "st_two = init_state (NewKubeStraceDefaults\<lparr>targetPods := [web1, web2]\<rparr>)"

definition env_fail :: env where
  "env_fail = \<lparr>env_Complete = None,
     env_Visit = [VisitObject (PodObject web1), VisitObject (PodObject web2), VisitObject (PodObject web1)],
     env_ParseDuration = ParseDuration fl_float64,
     env_CreateNamespace = (Some ''kstrace-1'', None),
     env_Start = (\<lambda>t. if t = 1 then Some (ErrExternal ''unschedulable'') else None),
     env_Stop = (\<lambda>t. None),
     env_Cleanup = (\<lambda>t. None),
     env_CleanupNamespace = (\<lambda>n. None)\<rparr>"

definition st_three :: state where
  "st_three = init_state (NewKubeStraceDefaults\<lparr>targetPods := [web1, web2, web1]\<rparr>)"

definition env_ns_fail :: env where
  "env_ns_fail = env_ok\<lparr>env_CreateNamespace := (Some [], Some (ErrExternal ''namespaces is forbidden''))\<rparr>"

definition env_ns_nil :: env where
  "env_ns_nil = env_ok\<lparr>env_CreateNamespace := (None, Some (ErrExternal ''namespaces is forbidden''))\<rparr>"

definition env_one :: env where
  "env_one = env_ok\<lparr>env_Visit := [VisitObject (PodObject web1)]\<rparr>"

definition env_duo :: env where
  "env_duo = env_ok\<lparr>env_Visit := [VisitObject (PodObject web3)]\<rparr>"

definition env_none :: env where
  "env_none = env_ok\<lparr>env_Visit := []\<rparr>"

definition env_deploy :: env where
  "env_deploy = env_ok\<lparr>env_Visit :=
     [VisitObject (PodObject web1), VisitObject (OtherObject (GVK ''apps'' ''v1'' ''Deployment'')),
      VisitObject (PodObject web2)]\<rparr>"

definition st_default :: state where
  "st_default = init_state NewKubeStraceDefaults"

definition st_console :: state where
  "st_console = init_state (NewKubeStraceDefaults\<lparr>outputDirectory := ''-''\<rparr>)"

definition st_dashes :: state where
  "st_dashes = init_state (NewKubeStraceDefaults\<lparr>outputDirectory := ''--''\<rparr>)"

definition st_neg :: state where
  "st_neg = init_state (NewKubeStraceDefaults\<lparr>traceTimeoutStr := ''-5s''\<rparr>)"

definition st_5s :: state where
  "st_5s = init_state (NewKubeStraceDefaults\<lparr>traceTimeoutStr := ''5s''\<rparr>)"

definition st_bad :: state where
  "st_bad = init_state (NewKubeStraceDefaults\<lparr>traceTimeoutStr := ''5''\<rparr>)"

section \<open>Facts about the loops\<close>

lemma run_deferred_calls:
  "run_deferred env ds st = st\<lparr>calls := calls st @ map (call_deferred env) ds\<rparr>"
  by (induction ds arbitrary: st) auto

text \<open>The second loop when every \<^verbatim>\<open>Start\<close> returns nil, and when one does not.\<close>

lemma start_loop_ok:
  "\<forall>t\<in>set ts. env_Start env t = None \<Longrightarrow>
   start_loop env ts ds st =
     (None, concat (map (\<lambda>t. [DeferStop t, DeferCleanup t]) (rev ts)) @ ds,
      st\<lparr>calls := calls st @ map (\<lambda>t. Start t (env_Start env t)) ts\<rparr>)"
  by (induction ts arbitrary: ds st) auto

lemma start_loop_fail:
  "\<forall>u\<in>set pre. env_Start env u = None \<Longrightarrow> env_Start env t = Some e \<Longrightarrow>
   start_loop env (pre @ t # post) ds st =
     (Some e, concat (map (\<lambda>t. [DeferStop t, DeferCleanup t]) (rev (pre @ [t]))) @ ds,
      st\<lparr>calls := calls st @ map (\<lambda>t. Start t (env_Start env t)) (pre @ [t])\<rparr>)"
  by (induction pre arbitrary: ds st) (auto simp: Let_def)

lemma start_split:
  "(\<forall>t\<in>set ts. env_Start env t = None) \<or>
   (\<exists>pre t post e. ts = pre @ t # post \<and> (\<forall>u\<in>set pre. env_Start env u = None)
      \<and> env_Start env t = Some e)"
proof (induction ts)
  case Nil
  then show ?case by simp
next
  case (Cons a ts)
  show ?case
  proof (cases "env_Start env a")
    case (Some e)
    then have "a # ts = [] @ a # ts \<and> (\<forall>u\<in>set []. env_Start env u = None)
        \<and> env_Start env a = Some e"
      by simp
    then show ?thesis by blast
  next
    case None
    from Cons.IH show ?thesis
    proof
      assume "\<forall>t\<in>set ts. env_Start env t = None"
      with None show ?thesis by simp
    next
      assume "\<exists>pre t post e. ts = pre @ t # post \<and> (\<forall>u\<in>set pre. env_Start env u = None)
          \<and> env_Start env t = Some e"
      then obtain pre t post e where "ts = pre @ t # post"
        "\<forall>u\<in>set pre. env_Start env u = None" "env_Start env t = Some e"
        by blast
      with None have "a # ts = (a # pre) @ t # post
          \<and> (\<forall>u\<in>set (a # pre). env_Start env u = None) \<and> env_Start env t = Some e"
        by simp
      then show ?thesis by blast
    qed
  qed
qed

text \<open>
  The first loop. With one variable for the loop, every tracer is given the same
  address \<open>a\<close>, and the variable ends holding the last pod. With a variable per
  iteration, the tracers are given the addresses of consecutive new variables, which
  hold the pods in order.
\<close>

lemma construct_loop_PerLoop:
  "construct_loop PerLoop ns a ps st =
     st\<lparr>pod_vars := (if ps = [] then pod_vars st else (pod_vars st)[a := last ps]),
        tracer_objs := tracer_objs st @ replicate (length ps) (tracer_for (kCmd st) ns a),
        kCmd := (kCmd st)\<lparr>tracers := tracers (kCmd st) @
           [length (tracer_objs st) ..< length (tracer_objs st) + length ps]\<rparr>\<rparr>"
proof (induction ps arbitrary: st)
  case Nil
  then show ?case by simp
next
  case (Cons p ps)
  show ?case
    by (cases "ps = []")
      (simp_all add: Cons.IH loop_var_def NewKStracer_def Let_def tracer_for_def
        upt_rec [of "length (tracer_objs st)"] replicate_app_Cons_same Suc_le_eq)
qed

lemma construct_loop_PerIteration:
  "construct_loop PerIteration ns a ps st =
     st\<lparr>pod_vars := pod_vars st @ ps,
        tracer_objs := tracer_objs st @
           map (\<lambda>i. tracer_for (kCmd st) ns (length (pod_vars st) + i)) [0..<length ps],
        kCmd := (kCmd st)\<lparr>tracers := tracers (kCmd st) @
           [length (tracer_objs st) ..< length (tracer_objs st) + length ps]\<rparr>\<rparr>"
proof (induction ps arbitrary: st a)
  case Nil
  then show ?case by simp
next
  case (Cons p ps)
  show ?case
    by (simp add: Cons.IH loop_var_def NewKStracer_def new_pod_var_def Let_def tracer_for_def
        upt_rec [of "length (tracer_objs st)"] map_upt_Suc del: upt_Suc)
qed

text \<open>The first loop appends one new tracer per target pod and makes no call.\<close>

lemma construct_tracers_tracers:
  "tracers (kCmd (construct_tracers lv ns st)) =
     tracers (kCmd st) @
       [length (tracer_objs st) ..< length (tracer_objs st) + length (targetPods (kCmd st))]"
  by (cases lv)
    (simp_all add: construct_tracers_def range_loop_def new_pod_var_def construct_loop_PerLoop
      construct_loop_PerIteration)

lemma construct_tracers_calls: "calls (construct_tracers lv ns st) = calls st"
  by (cases lv)
    (simp_all add: construct_tracers_def range_loop_def new_pod_var_def construct_loop_PerLoop
      construct_loop_PerIteration)

lemma construct_tracers_objs:
  "tracer_objs (construct_tracers lv ns st) =
     tracer_objs st @
       map (\<lambda>i. tracer_for (kCmd st) ns
              (case lv of PerLoop \<Rightarrow> length (pod_vars st) | PerIteration \<Rightarrow> length (pod_vars st) + i))
         [0..<length (targetPods (kCmd st))]"
  by (cases lv)
    (simp_all add: construct_tracers_def range_loop_def new_pod_var_def construct_loop_PerLoop
      construct_loop_PerIteration map_replicate_const)

lemma construct_tracers_pod_vars:
  "pod_vars (construct_tracers lv ns st) =
     (case lv of
        PerLoop \<Rightarrow> pod_vars st @
          [if targetPods (kCmd st) = [] then zero_Pod else last (targetPods (kCmd st))]
      | PerIteration \<Rightarrow> pod_vars st @ targetPods (kCmd st))"
  by (cases lv)
    (simp_all add: construct_tracers_def range_loop_def new_pod_var_def construct_loop_PerLoop
      construct_loop_PerIteration)

lemma construct_tracers_kCmd:
  "(kCmd (construct_tracers lv ns st))\<lparr>tracers := ts\<rparr> = (kCmd st)\<lparr>tracers := ts\<rparr>"
  by (cases lv)
    (simp_all add: construct_tracers_def range_loop_def new_pod_var_def construct_loop_PerLoop
      construct_loop_PerIteration)

text \<open>\<^verbatim>\<open>Run\<close> once \<^verbatim>\<open>CreateNamespace\<close> has returned a namespace and no error.\<close>

lemma Run_created:
  "env_CreateNamespace env = (Some name, None) \<Longrightarrow>
   Run lv env st =
     (case start_loop env
             (tracers (kCmd (construct_tracers lv name
                (st\<lparr>calls := calls st @ [CreateNamespace (Some name) None]\<rparr>))))
             [DeferCleanupNamespace name]
             (construct_tracers lv name
                (st\<lparr>calls := calls st @ [CreateNamespace (Some name) None]\<rparr>)) of
        (err1, ds1, st3) \<Rightarrow> (Return err1, run_deferred env ds1 st3))"
  by (simp add: Run_def Let_def)

lemma call_deferred_teardown:
  "map (call_deferred env) (concat (map (\<lambda>t. [DeferStop t, DeferCleanup t]) ts)) =
   concat (map (\<lambda>t. [Stop t (env_Stop env t), Cleanup t (env_Cleanup env t)]) ts)"
  by (induction ts) auto

text \<open>
  The two ways \<^verbatim>\<open>Run\<close> ends after the first loop: every \<^verbatim>\<open>Start\<close> returned nil, or
  the \<^verbatim>\<open>Start\<close> of \<open>t\<close> was the first to return an error.
\<close>

lemma Run_all_started:
  assumes "env_CreateNamespace env = (Some name, None)"
    and "st2 = construct_tracers lv name (st\<lparr>calls := calls st @ [CreateNamespace (Some name) None]\<rparr>)"
    and "\<forall>t\<in>set (tracers (kCmd st2)). env_Start env t = None"
  shows "Run lv env st =
     (Return None,
      st2\<lparr>calls := calls st @ CreateNamespace (Some name) None #
         map (\<lambda>t. Start t (env_Start env t)) (tracers (kCmd st2)) @
         concat (map (\<lambda>t. [Stop t (env_Stop env t), Cleanup t (env_Cleanup env t)])
           (rev (tracers (kCmd st2)))) @
         [CleanupNamespace name (env_CleanupNamespace env name)]\<rparr>)"
  using assms(3) unfolding Run_created [OF assms(1)] assms(2) [symmetric]
  by (simp add: start_loop_ok run_deferred_calls call_deferred_teardown assms(2)
      construct_tracers_calls)

lemma Run_start_failed:
  assumes "env_CreateNamespace env = (Some name, None)"
    and "st2 = construct_tracers lv name (st\<lparr>calls := calls st @ [CreateNamespace (Some name) None]\<rparr>)"
    and "tracers (kCmd st2) = pre @ t # post"
    and "\<forall>u\<in>set pre. env_Start env u = None" and "env_Start env t = Some e"
  shows "Run lv env st =
     (Return (Some e),
      st2\<lparr>calls := calls st @ CreateNamespace (Some name) None #
         map (\<lambda>t. Start t (env_Start env t)) (pre @ [t]) @
         concat (map (\<lambda>t. [Stop t (env_Stop env t), Cleanup t (env_Cleanup env t)])
           (rev (pre @ [t]))) @
         [CleanupNamespace name (env_CleanupNamespace env name)]\<rparr>)"
  unfolding Run_created [OF assms(1)] assms(2) [symmetric] assms(3)
  using assms(4,5) call_deferred_teardown [of env "rev pre"]
  by (simp add: start_loop_fail run_deferred_calls assms(2)
      construct_tracers_calls)

text \<open>After the first loop \<^verbatim>\<open>Run\<close> changes nothing but the list of calls.\<close>

lemma Run_tracers:
  assumes "env_CreateNamespace env = (Some name, None)"
  shows "kCmd (snd (Run lv env st)) = kCmd (construct_tracers lv name (st\<lparr>calls := calls st @ [CreateNamespace (Some name) None]\<rparr>))
   \<and> tracer_objs (snd (Run lv env st)) = tracer_objs (construct_tracers lv name (st\<lparr>calls := calls st @ [CreateNamespace (Some name) None]\<rparr>))
   \<and> pod_vars (snd (Run lv env st)) = pod_vars (construct_tracers lv name (st\<lparr>calls := calls st @ [CreateNamespace (Some name) None]\<rparr>))"
proof -
  define st2 where "st2 = construct_tracers lv name (st\<lparr>calls := calls st @ [CreateNamespace (Some name) None]\<rparr>)"
  from start_split [of "tracers (kCmd st2)" env] show ?thesis
  proof
    assume ok: "\<forall>t\<in>set (tracers (kCmd st2)). env_Start env t = None"
    show ?thesis unfolding st2_def [symmetric]
      by (simp add: Run_all_started [OF assms st2_def ok])
  next
    assume "\<exists>pre t post e. tracers (kCmd st2) = pre @ t # post \<and>
        (\<forall>u\<in>set pre. env_Start env u = None) \<and> env_Start env t = Some e"
    then obtain pre t post e where split: "tracers (kCmd st2) = pre @ t # post"
      and pre: "\<forall>u\<in>set pre. env_Start env u = None" and t: "env_Start env t = Some e"
      by blast
    show ?thesis unfolding st2_def [symmetric]
      by (simp add: Run_start_failed [OF assms st2_def split pre t])
  qed
qed

text \<open>The error of the second loop depends on the results of \<^verbatim>\<open>Start\<close> only.\<close>

lemma start_loop_err_indep:
  "env_Start env' = env_Start env \<Longrightarrow>
   fst (start_loop env' ts ds' st') = fst (start_loop env ts ds st)"
  by (induction ts arbitrary: ds st ds' st') (auto simp: Let_def split: option.splits)

lemma Run_error_start_loop:
  assumes "env_CreateNamespace env = (Some name, None)"
  shows "fst (Run lv env st) =
     Return (fst (start_loop env
       (tracers (kCmd (construct_tracers lv name
          (st\<lparr>calls := calls st @ [CreateNamespace (Some name) None]\<rparr>))))
       [DeferCleanupNamespace name]
       (construct_tracers lv name
          (st\<lparr>calls := calls st @ [CreateNamespace (Some name) None]\<rparr>))))"
  by (simp add: Run_created [OF assms] case_prod_unfold)

section \<open>Facts about resolution, validation and the duration parser\<close>

text \<open>
  The visit of a run of pods, and of a list of steps with an object that is no pod;
  what \<^verbatim>\<open>Validate\<close> leaves unchanged; \<^verbatim>\<open>Validate\<close> once the pods are resolved; and
  \<^verbatim>\<open>ParseDuration\<close> on four flags, for every instance of the floating-point
  parameter.
\<close>

lemma Visit_pods:
  "Visit (map (\<lambda>p. VisitObject (PodObject p)) pods @ rest) acc = Visit rest (acc @ pods)"
  by (induction pods arbitrary: acc) auto

lemma Visit_other_error:
  "VisitObject (OtherObject k) \<in> set steps \<Longrightarrow> \<exists>e acc'. Visit steps acc = (Some e, acc')"
proof (induction steps arbitrary: acc)
  case Nil
  then show ?case by simp
next
  case (Cons s steps)
  show ?case
  proof (cases "visit_fn s acc")
    case (Pair r acc1)
    show ?thesis
    proof (cases r)
      case (Some e)
      with Pair show ?thesis by simp
    next
      case None
      with Pair have "s \<noteq> VisitObject (OtherObject k)" by auto
      with Cons.prems have "VisitObject (OtherObject k) \<in> set steps" by simp
      from Cons.IH [OF this, of acc1] Pair None show ?thesis by simp
    qed
  qed
qed

lemma Validate_resolution_error:
  "processResources (env_Visit env) = (pods, Some e) \<Longrightarrow> fst (Validate env st) = Some e"
  by (simp add: Validate_def)

lemma Validate_unchanged:
  "calls (snd (Validate env st)) = calls st \<and> tracer_objs (snd (Validate env st)) = tracer_objs st
   \<and> pod_vars (snd (Validate env st)) = pod_vars st
   \<and> tracers (kCmd (snd (Validate env st))) = tracers (kCmd st)"
  by (auto simp: Validate_def Let_def split: prod.splits option.splits)

lemma RunE_Validate_error:
  "env_Complete env = None \<Longrightarrow> fst (Validate env st) = Some e \<Longrightarrow>
   RunE lv env st = (Return (Some e), snd (Validate env st))"
  by (cases "Validate env st") (simp add: RunE_def)

lemma Validate_resolved:
  assumes "processResources (env_Visit env) = (pods, None)" and "pods \<noteq> []"
  shows "fst (Validate env st) =
     (if 1 < length pods \<and> outputDirectory (kCmd st) = ''-'' then Some ErrMultiplePodsStdout
      else if 1 < length (Containers (pods ! 0)) \<and> outputDirectory (kCmd st) = ''-''
      then Some (ErrMultipleContainersStdout (Name (pods ! 0)))
      else snd (env_ParseDuration env (traceTimeoutStr (kCmd st))))"
  using assms by (auto simp: Validate_def Let_def split: prod.splits option.splits)

lemma ParseDuration_0: "ParseDuration fl ''0'' = (0, None)"
  by (simp add: ParseDuration_def)

lemma parse_term_5s: "parse_term fl orig ''5s'' = Inr (5000000000, [])"
  by (simp add: parse_term_def fraction_part_def unitMap_def unit_char_def is_digit_def
      digit_val_def Let_def)

lemma parse_loop_5s: "parse_loop fl orig 0 ''5s'' = Inr 5000000000"
  by (simp add: parse_loop.simps [of _ _ _ "''5s''"] parse_loop.simps [of _ _ _ "[]"]
      parse_term_5s Let_def)

lemma ParseDuration_minus_5s: "ParseDuration fl ''-5s'' = (- 5000000000, None)"
  by (simp add: ParseDuration_def parse_loop_5s Let_def)

lemma ParseDuration_5s: "ParseDuration fl ''5s'' = (5000000000, None)"
  by (simp add: ParseDuration_def parse_loop_5s Let_def)

lemma parse_term_5: "parse_term fl orig ''5'' = Inl (ErrMissingUnit orig)"
  by (simp add: parse_term_def fraction_part_def unitMap_def unit_char_def is_digit_def
      digit_val_def Let_def)

lemma ParseDuration_5: "ParseDuration fl ''5'' = (0, Some (ErrMissingUnit ''5''))"
  by (simp add: ParseDuration_def parse_loop.simps [of _ _ _ "''5''"] parse_term_5 Let_def)

text \<open>The resolution of the concrete environments.\<close>

lemma resolved_ok: "processResources (env_Visit env_ok) = ([web1, web2], None)"
  by (simp add: processResources_def env_ok_def)

lemma resolved_one: "processResources (env_Visit env_one) = ([web1], None)"
  by (simp add: processResources_def env_one_def)

lemma resolved_duo: "processResources (env_Visit env_duo) = ([web3], None)"
  by (simp add: processResources_def env_duo_def)

lemma resolved_none: "processResources (env_Visit env_none) = ([], None)"
  by (simp add: processResources_def env_none_def)

section \<open>Teardown\<close>

text \<open>
  C3: on every return of \<^verbatim>\<open>Run\<close> after \<^verbatim>\<open>CreateNamespace\<close> returned a namespace and
  a nil error, the calls made are: \<^verbatim>\<open>CreateNamespace\<close>; \<^verbatim>\<open>Start\<close> on the tracers
  \<open>started\<close>, a prefix of \<^verbatim>\<open>kCmd.tracers\<close>, in order; then, for the started tracers in
  reverse order (the last started first), \<^verbatim>\<open>Stop\<close> and right after it \<^verbatim>\<open>Cleanup\<close>;
  and last, after every \<^verbatim>\<open>Stop\<close> and \<^verbatim>\<open>Cleanup\<close>, \<^verbatim>\<open>CleanupNamespace\<close> on the
  run's namespace.
\<close>

theorem Run_teardown_order:
  assumes "env_CreateNamespace env = (Some name, None)"
  shows "\<exists>started rest.
     tracers (kCmd (snd (Run lv env st))) = started @ rest \<and>
     calls (snd (Run lv env st)) =
       calls st @ CreateNamespace (Some name) None #
       map (\<lambda>t. Start t (env_Start env t)) started @
       concat (map (\<lambda>t. [Stop t (env_Stop env t), Cleanup t (env_Cleanup env t)]) (rev started)) @
       [CleanupNamespace name (env_CleanupNamespace env name)]"
proof -
  define st2 where "st2 = construct_tracers lv name (st\<lparr>calls := calls st @ [CreateNamespace (Some name) None]\<rparr>)"
  from start_split [of "tracers (kCmd st2)" env] show ?thesis
  proof
    assume ok: "\<forall>t\<in>set (tracers (kCmd st2)). env_Start env t = None"
    have "tracers (kCmd (snd (Run lv env st))) = tracers (kCmd st2) @ []"
      by (simp add: Run_all_started [OF assms st2_def ok])
    moreover have "calls (snd (Run lv env st)) =
       calls st @ CreateNamespace (Some name) None #
       map (\<lambda>t. Start t (env_Start env t)) (tracers (kCmd st2)) @
       concat (map (\<lambda>t. [Stop t (env_Stop env t), Cleanup t (env_Cleanup env t)]) (rev (tracers (kCmd st2)))) @
       [CleanupNamespace name (env_CleanupNamespace env name)]"
      by (simp add: Run_all_started [OF assms st2_def ok])
    ultimately show ?thesis by blast
  next
    assume "\<exists>pre t post e. tracers (kCmd st2) = pre @ t # post \<and>
        (\<forall>u\<in>set pre. env_Start env u = None) \<and> env_Start env t = Some e"
    then obtain pre t post e where split: "tracers (kCmd st2) = pre @ t # post"
      and pre: "\<forall>u\<in>set pre. env_Start env u = None" and t: "env_Start env t = Some e"
      by blast
    note R = Run_start_failed [OF assms st2_def split pre t]
    have "tracers (kCmd (snd (Run lv env st))) = (pre @ [t]) @ post"
      by (simp add: R split)
    moreover have "calls (snd (Run lv env st)) =
       calls st @ CreateNamespace (Some name) None #
       map (\<lambda>t. Start t (env_Start env t)) (pre @ [t]) @
       concat (map (\<lambda>t. [Stop t (env_Stop env t), Cleanup t (env_Cleanup env t)]) (rev (pre @ [t]))) @
       [CleanupNamespace name (env_CleanupNamespace env name)]"
      by (simp add: R)
    ultimately show ?thesis by blast
  qed
qed

theorem Run_teardown_order_witness:
  "env_CreateNamespace env_fail = (Some ''kstrace-1'', None) \<and>
   (\<exists>started rest.
     tracers (kCmd (snd (Run PerLoop env_fail st_three))) = started @ rest \<and>
     calls (snd (Run PerLoop env_fail st_three)) =
       calls st_three @ CreateNamespace (Some ''kstrace-1'') None #
       map (\<lambda>t. Start t (env_Start env_fail t)) started @
       concat (map (\<lambda>t. [Stop t (env_Stop env_fail t), Cleanup t (env_Cleanup env_fail t)]) (rev started)) @
       [CleanupNamespace ''kstrace-1'' (env_CleanupNamespace env_fail ''kstrace-1'')])"
proof -
  have h: "env_CreateNamespace env_fail = (Some ''kstrace-1'', None)"
    by (simp add: env_fail_def)
  from h Run_teardown_order [OF h, of PerLoop st_three] show ?thesis by blast
qed

text \<open>
  C4: if the \<^verbatim>\<open>Start\<close> of the tracer \<open>t\<close> of \<^verbatim>\<open>kCmd.tracers\<close> is the first to return
  an error \<open>e\<close>, \<^verbatim>\<open>Run\<close> returns \<open>e\<close>; \<^verbatim>\<open>Start\<close> is called on the tracers before
  \<open>t\<close> and on \<open>t\<close> and on no tracer after \<open>t\<close>; and \<^verbatim>\<open>Stop\<close> and \<^verbatim>\<open>Cleanup\<close>
  are called on \<open>t\<close> and on every tracer before it, before \<^verbatim>\<open>Run\<close> returns.
\<close>

theorem Run_start_error:
  assumes "env_CreateNamespace env = (Some name, None)"
    and "tracers (kCmd (snd (Run lv env st))) = pre @ t # post"
    and "\<forall>u\<in>set pre. env_Start env u = None"
    and "env_Start env t = Some e"
  shows "fst (Run lv env st) = Return (Some e) \<and>
     calls (snd (Run lv env st)) =
       calls st @ CreateNamespace (Some name) None #
       map (\<lambda>t. Start t (env_Start env t)) (pre @ [t]) @
       concat (map (\<lambda>t. [Stop t (env_Stop env t), Cleanup t (env_Cleanup env t)]) (rev (pre @ [t]))) @
       [CleanupNamespace name (env_CleanupNamespace env name)]"
proof -
  define st2 where "st2 = construct_tracers lv name (st\<lparr>calls := calls st @ [CreateNamespace (Some name) None]\<rparr>)"
  from assms(2) Run_tracers [OF assms(1), of lv st]
  have split: "tracers (kCmd st2) = pre @ t # post" by (simp add: st2_def)
  show ?thesis
    by (simp add: Run_start_failed [OF assms(1) st2_def split assms(3) assms(4)])
qed

theorem Run_start_error_witness:
  "fst (Run PerLoop env_fail st_three) = Return (Some (ErrExternal ''unschedulable'')) \<and>
   calls (snd (Run PerLoop env_fail st_three)) =
     [CreateNamespace (Some ''kstrace-1'') None,
      Start 0 None, Start 1 (Some (ErrExternal ''unschedulable'')),
      Stop 1 None, Cleanup 1 None, Stop 0 None, Cleanup 0 None,
      CleanupNamespace ''kstrace-1'' None]"
proof -
  have h1: "env_CreateNamespace env_fail = (Some ''kstrace-1'', None)"
    by (simp add: env_fail_def)
  have h2: "tracers (kCmd (snd (Run PerLoop env_fail st_three))) = [0] @ 1 # [2]"
    by (simp add: Run_tracers [OF h1] construct_tracers_tracers st_three_def init_state_def
        NewKubeStraceDefaults_def upt_rec)
  have h3: "\<forall>u\<in>set [0]. env_Start env_fail u = None"
    by (simp add: env_fail_def)
  have h4: "env_Start env_fail 1 = Some (ErrExternal ''unschedulable'')"
    by (simp add: env_fail_def)
  show ?thesis
    using Run_start_error [OF h1 h2 h3 h4]
    by (simp add: env_fail_def st_three_def init_state_def)
qed

text \<open>
  C7: the error \<^verbatim>\<open>Run\<close> returns does not depend on what \<^verbatim>\<open>Stop\<close>, \<^verbatim>\<open>Cleanup\<close>
  and \<^verbatim>\<open>CleanupNamespace\<close> return (replacing the three by any \<open>s\<close>, \<open>c\<close> and \<open>n\<close>
  leaves it unchanged); and when \<^verbatim>\<open>CreateNamespace\<close> and every \<^verbatim>\<open>Start\<close> succeed,
  \<^verbatim>\<open>Run\<close> returns nil, whatever the cleanup calls return.
\<close>

theorem Run_error_ignores_cleanup:
  "fst (Run lv (env\<lparr>env_Stop := s, env_Cleanup := c, env_CleanupNamespace := n\<rparr>) st) = fst (Run lv env st)
   \<and> (env_CreateNamespace env = (Some name, None) \<and> (\<forall>t. env_Start env t = None)
        \<longrightarrow> fst (Run lv env st) = Return None)"
proof
  let ?env' = "env\<lparr>env_Stop := s, env_Cleanup := c, env_CleanupNamespace := n\<rparr>"
  have S: "env_Start ?env' = env_Start env" by simp
  obtain ns err where cn: "env_CreateNamespace env = (ns, err)"
    by (cases "env_CreateNamespace env") auto
  show "fst (Run lv ?env' st) = fst (Run lv env st)"
  proof (cases "\<exists>nm. ns = Some nm \<and> err = None")
    case True
    then obtain nm where c: "env_CreateNamespace env = (Some nm, None)"
      using cn by auto
    then have c': "env_CreateNamespace ?env' = (Some nm, None)" by simp
    show ?thesis
      unfolding Run_error_start_loop [OF c] Run_error_start_loop [OF c']
      using start_loop_err_indep [OF S] by simp
  next
    case False
    with cn show ?thesis
      by (cases ns; cases err) (simp_all add: Run_def Let_def)
  qed
next
  show "env_CreateNamespace env = (Some name, None) \<and> (\<forall>t. env_Start env t = None)
        \<longrightarrow> fst (Run lv env st) = Return None"
  proof
    assume a: "env_CreateNamespace env = (Some name, None) \<and> (\<forall>t. env_Start env t = None)"
    then have c: "env_CreateNamespace env = (Some name, None)" by simp
    from a have ok: "\<forall>t\<in>set (tracers (kCmd (construct_tracers lv name (st\<lparr>calls := calls st @ [CreateNamespace (Some name) None]\<rparr>)))). env_Start env t = None" by simp
    show "fst (Run lv env st) = Return None"
      by (simp add: Run_all_started [OF c refl ok])
  qed
qed

theorem Run_error_ignores_cleanup_witness:
  "fst (Run PerLoop (env_fail\<lparr>env_Stop := env_Stop env_ok, env_Cleanup := env_Cleanup env_ok,
         env_CleanupNamespace := env_CleanupNamespace env_ok\<rparr>) st_three) = fst (Run PerLoop env_fail st_three)
   \<and> env_CreateNamespace env_ok = (Some ''kstrace-1'', None) \<and> (\<forall>t. env_Start env_ok t = None)
   \<and> fst (Run PerLoop env_ok st_two) = Return None
   \<and> calls (snd (Run PerLoop env_ok st_two)) =
     [CreateNamespace (Some ''kstrace-1'') None, Start 0 None, Start 1 None,
      Stop 1 (Some (ErrExternal ''stop failed'')), Cleanup 1 (Some (ErrExternal ''pod delete failed'')),
      Stop 0 (Some (ErrExternal ''stop failed'')), Cleanup 0 (Some (ErrExternal ''pod delete failed'')),
      CleanupNamespace ''kstrace-1'' (Some (ErrExternal ''namespace delete failed''))]"
proof -
  have h: "env_CreateNamespace env_ok = (Some ''kstrace-1'', None) \<and> (\<forall>t. env_Start env_ok t = None)"
    by (simp add: env_ok_def)
  have c: "calls (snd (Run PerLoop env_ok st_two)) =
     [CreateNamespace (Some ''kstrace-1'') None, Start 0 None, Start 1 None,
      Stop 1 (Some (ErrExternal ''stop failed'')), Cleanup 1 (Some (ErrExternal ''pod delete failed'')),
      Stop 0 (Some (ErrExternal ''stop failed'')), Cleanup 0 (Some (ErrExternal ''pod delete failed'')),
      CleanupNamespace ''kstrace-1'' (Some (ErrExternal ''namespace delete failed''))]"
  proof -
    have cn: "env_CreateNamespace env_ok = (Some ''kstrace-1'', None)"
      by (simp add: env_ok_def)
    have ok: "\<forall>t\<in>set (tracers (kCmd (construct_tracers PerLoop ''kstrace-1''
        (st_two\<lparr>calls := calls st_two @ [CreateNamespace (Some ''kstrace-1'') None]\<rparr>)))).
        env_Start env_ok t = None"
      by (simp add: env_ok_def)
    show ?thesis
      unfolding Run_all_started [OF cn refl ok]
      by (simp add: construct_tracers_tracers env_ok_def st_two_def init_state_def
          NewKubeStraceDefaults_def upt_rec)
  qed
  from Run_error_ignores_cleanup [where lv = PerLoop and env = env_fail and s = "env_Stop env_ok"
      and c = "env_Cleanup env_ok" and n = "env_CleanupNamespace env_ok" and st = st_three]
  have a: "fst (Run PerLoop (env_fail\<lparr>env_Stop := env_Stop env_ok, env_Cleanup := env_Cleanup env_ok,
         env_CleanupNamespace := env_CleanupNamespace env_ok\<rparr>) st_three) = fst (Run PerLoop env_fail st_three)"
    by blast
  from Run_error_ignores_cleanup [where lv = PerLoop and env = env_ok and st = st_two
      and name = "''kstrace-1''"] h
  have b: "fst (Run PerLoop env_ok st_two) = Return None"
    by blast
  from a h b c show ?thesis by blast
qed

section \<open>Failure of CreateNamespace\<close>

text \<open>
  C9: the \<^verbatim>\<open>defer\<close> of \<^verbatim>\<open>CleanupNamespace\<close> comes before the check of the error of
  \<^verbatim>\<open>CreateNamespace\<close>. So when \<^verbatim>\<open>CreateNamespace\<close> returns a namespace object and
  an error, \<^verbatim>\<open>Run\<close> returns that error, constructs no tracer (the state changes in its
  list of calls only) and still calls \<^verbatim>\<open>CleanupNamespace\<close> with the name read from the
  object; and when \<^verbatim>\<open>CreateNamespace\<close> returns a nil namespace, reading the name
  panics, before anything is deferred.
\<close>

theorem Run_namespace_error:
  "(env_CreateNamespace env = (Some name, Some e) \<longrightarrow>
      Run lv env st =
        (Return (Some e),
         st\<lparr>calls := calls st @ [CreateNamespace (Some name) (Some e),
                                 CleanupNamespace name (env_CleanupNamespace env name)]\<rparr>))
   \<and> (env_CreateNamespace env = (None, err) \<longrightarrow>
      Run lv env st = (Panic, st\<lparr>calls := calls st @ [CreateNamespace None err]\<rparr>))"
  by (simp add: Run_def Let_def)

theorem Run_namespace_error_witness:
  "Run PerLoop env_ns_fail st_two =
     (Return (Some (ErrExternal ''namespaces is forbidden'')),
      st_two\<lparr>calls := [CreateNamespace (Some []) (Some (ErrExternal ''namespaces is forbidden'')),
                       CleanupNamespace [] (Some (ErrExternal ''namespace delete failed''))]\<rparr>)
   \<and> Run PerLoop env_ns_nil st_two =
     (Panic, st_two\<lparr>calls := [CreateNamespace None (Some (ErrExternal ''namespaces is forbidden''))]\<rparr>)"
proof -
  have h1: "env_CreateNamespace env_ns_fail = (Some [], Some (ErrExternal ''namespaces is forbidden''))"
    by (simp add: env_ns_fail_def)
  have h2: "env_CreateNamespace env_ns_nil = (None, Some (ErrExternal ''namespaces is forbidden''))"
    by (simp add: env_ns_nil_def)
  have c: "calls st_two = []" by (simp add: st_two_def init_state_def)
  from h1 Run_namespace_error [where env = env_ns_fail and name = "[]"
      and e = "ErrExternal ''namespaces is forbidden''" and lv = PerLoop and st = st_two]
  have a: "Run PerLoop env_ns_fail st_two =
     (Return (Some (ErrExternal ''namespaces is forbidden'')),
      st_two\<lparr>calls := [CreateNamespace (Some []) (Some (ErrExternal ''namespaces is forbidden'')),
                       CleanupNamespace [] (Some (ErrExternal ''namespace delete failed''))]\<rparr>)"
    by (simp add: c env_ns_fail_def env_ok_def)
  from h2 Run_namespace_error [where env = env_ns_nil and lv = PerLoop and st = st_two
      and err = "Some (ErrExternal ''namespaces is forbidden'')"]
  have b: "Run PerLoop env_ns_nil st_two =
     (Panic, st_two\<lparr>calls := [CreateNamespace None (Some (ErrExternal ''namespaces is forbidden''))]\<rparr>)"
    by (simp add: c)
  from a b show ?thesis by blast
qed

section \<open>Resolution and validation\<close>

text \<open>
  C8: when a step of the visit is an object that is no pod, \<^verbatim>\<open>processResources\<close>
  returns an empty slice and a non-nil error, and \<^verbatim>\<open>Validate\<close> returns that same
  error. When the visit reaches the object (every step before it handed over a pod:
  the visit stops at the first error, so an object after a failed step is never
  resolved), the error is the one the callback builds from the object's
  \<^verbatim>\<open>GroupVersionKind\<close>.
\<close>

theorem processResources_unsupported_kind:
  "(VisitObject (OtherObject k) \<in> set (env_Visit env) \<longrightarrow>
      (\<exists>e. processResources (env_Visit env) = ([], Some e) \<and> fst (Validate env st) = Some e))
   \<and> (env_Visit env = map (\<lambda>p. VisitObject (PodObject p)) pods @ VisitObject (OtherObject k) # rest \<longrightarrow>
      processResources (env_Visit env) = ([], Some (ErrNotSupported k))
      \<and> fst (Validate env st) = Some (ErrNotSupported k))"
proof (intro conjI impI)
  assume "VisitObject (OtherObject k) \<in> set (env_Visit env)"
  from Visit_other_error [OF this, of "[]"]
  obtain e acc' where "Visit (env_Visit env) [] = (Some e, acc')" by blast
  then have "processResources (env_Visit env) = ([], Some e)"
    by (simp add: processResources_def)
  then show "\<exists>e. processResources (env_Visit env) = ([], Some e) \<and> fst (Validate env st) = Some e"
    by (auto simp: Validate_resolution_error)
next
  assume a: "env_Visit env = map (\<lambda>p. VisitObject (PodObject p)) pods @ VisitObject (OtherObject k) # rest"
  show p: "processResources (env_Visit env) = ([], Some (ErrNotSupported k))"
    by (simp add: a processResources_def Visit_pods)
  show "fst (Validate env st) = Some (ErrNotSupported k)"
    by (rule Validate_resolution_error [OF p])
qed

theorem processResources_unsupported_kind_witness:
  "VisitObject (OtherObject (GVK ''apps'' ''v1'' ''Deployment'')) \<in> set (env_Visit env_deploy)
   \<and> processResources (env_Visit env_deploy) = ([], Some (ErrNotSupported (GVK ''apps'' ''v1'' ''Deployment'')))
   \<and> fst (Validate env_deploy st_default) = Some (ErrNotSupported (GVK ''apps'' ''v1'' ''Deployment''))"
proof -
  have h: "env_Visit env_deploy = map (\<lambda>p. VisitObject (PodObject p)) [web1] @
      VisitObject (OtherObject (GVK ''apps'' ''v1'' ''Deployment'')) # [VisitObject (PodObject web2)]"
    by (simp add: env_deploy_def)
  have m: "VisitObject (OtherObject (GVK ''apps'' ''v1'' ''Deployment'')) \<in> set (env_Visit env_deploy)"
    by (simp add: env_deploy_def)
  from processResources_unsupported_kind [where env = env_deploy and st = st_default
      and k = "GVK ''apps'' ''v1'' ''Deployment''" and pods = "[web1]"
      and rest = "[VisitObject (PodObject web2)]"] h m
  show ?thesis by blast
qed

text \<open>
  C6: if \<^verbatim>\<open>Validate\<close> returns a non-nil error, \<^verbatim>\<open>RunE\<close> returns that error and the
  state \<^verbatim>\<open>Validate\<close> left; \<^verbatim>\<open>Run\<close> is not called: no call to the cluster or to a
  tracer is made and no tracer or pod variable is allocated. (The hypothesis on
  \<^verbatim>\<open>Complete\<close> says that \<^verbatim>\<open>Validate\<close> is reached.)
\<close>

theorem RunE_validation_error:
  assumes "env_Complete env = None" and "fst (Validate env st) = Some e"
  shows "RunE lv env st = (Return (Some e), snd (Validate env st))
     \<and> calls (snd (RunE lv env st)) = calls st
     \<and> tracer_objs (snd (RunE lv env st)) = tracer_objs st
     \<and> pod_vars (snd (RunE lv env st)) = pod_vars st
     \<and> tracers (kCmd (snd (RunE lv env st))) = tracers (kCmd st)"
  by (simp add: RunE_Validate_error [OF assms] Validate_unchanged)

theorem RunE_validation_error_witness:
  "RunE PerLoop env_none st_default =
     (Return (Some ErrNoTargetPod), st_default)
   \<and> calls (snd (RunE PerLoop env_none st_default)) = []
   \<and> tracer_objs (snd (RunE PerLoop env_none st_default)) = []
   \<and> fst (RunE PerLoop env_one st_bad) = Return (Some (ErrMissingUnit ''5''))
   \<and> calls (snd (RunE PerLoop env_one st_bad)) = []"
proof -
  have c: "env_Complete env_none = None" "env_Complete env_one = None"
    by (simp_all add: env_none_def env_one_def env_ok_def)
  have v: "fst (Validate env_none st_default) = Some ErrNoTargetPod"
    by (simp add: Validate_def resolved_none)
  have s: "snd (Validate env_none st_default) = st_default"
    by (simp add: Validate_def resolved_none st_default_def init_state_def
        NewKubeStraceDefaults_def)
  have p: "env_ParseDuration env_one = ParseDuration fl_float64"
    by (simp add: env_one_def env_ok_def)
  have v2: "fst (Validate env_one st_bad) = Some (ErrMissingUnit ''5'')"
    by (simp add: Validate_resolved [OF resolved_one] p st_bad_def init_state_def
        NewKubeStraceDefaults_def ParseDuration_5)
  have e: "calls st_default = [] \<and> tracer_objs st_default = [] \<and> calls st_bad = []"
    by (simp add: st_default_def st_bad_def init_state_def)
  from RunE_validation_error [OF c(1) v, of PerLoop] RunE_validation_error [OF c(2) v2, of PerLoop]
  show ?thesis by (simp add: s e Validate_unchanged)
qed

text \<open>
  C5: with the output directory \<^verbatim>\<open>"-"\<close> and either more than one resolved pod, or
  one resolved pod with more than one container, \<^verbatim>\<open>Validate\<close> returns an error (the
  one about multiple pods, else the one about the containers of the pod),
  \<^verbatim>\<open>RunE\<close> returns it, and no call is made and no tracer constructed.
\<close>

theorem Validate_console_cardinality:
  assumes "env_Complete env = None"
    and "processResources (env_Visit env) = (pods, None)"
    and "outputDirectory (kCmd st) = ''-''"
    and "1 < length pods \<or> (length pods = 1 \<and> 1 < length (Containers (pods ! 0)))"
  shows "fst (Validate env st) =
       Some (if 1 < length pods then ErrMultiplePodsStdout
             else ErrMultipleContainersStdout (Name (pods ! 0)))
     \<and> fst (RunE lv env st) = Return (fst (Validate env st))
     \<and> calls (snd (RunE lv env st)) = calls st
     \<and> tracer_objs (snd (RunE lv env st)) = tracer_objs st"
proof -
  from assms(4) have ne: "pods \<noteq> []" by auto
  have v: "fst (Validate env st) =
       Some (if 1 < length pods then ErrMultiplePodsStdout
             else ErrMultipleContainersStdout (Name (pods ! 0)))"
    using assms(3,4) by (auto simp: Validate_resolved [OF assms(2) ne])
  show ?thesis
    by (simp add: RunE_Validate_error [OF assms(1) v] Validate_unchanged v)
qed

theorem Validate_console_cardinality_witness:
  "fst (Validate env_ok st_console) = Some ErrMultiplePodsStdout
   \<and> fst (RunE PerLoop env_ok st_console) = Return (Some ErrMultiplePodsStdout)
   \<and> calls (snd (RunE PerLoop env_ok st_console)) = []
   \<and> fst (Validate env_duo st_console) = Some (ErrMultipleContainersStdout ''web-3'')
   \<and> fst (RunE PerLoop env_duo st_console) = Return (Some (ErrMultipleContainersStdout ''web-3''))
   \<and> calls (snd (RunE PerLoop env_duo st_console)) = []"
proof -
  have c: "env_Complete env_ok = None" "env_Complete env_duo = None"
    by (simp_all add: env_duo_def env_ok_def)
  have o: "outputDirectory (kCmd st_console) = ''-''"
    by (simp add: st_console_def init_state_def)
  have n1: "1 < length [web1, web2] \<or> (length [web1, web2] = 1 \<and> 1 < length (Containers ([web1, web2] ! 0)))"
    by simp
  have n2: "1 < length [web3] \<or> (length [web3] = 1 \<and> 1 < length (Containers ([web3] ! 0)))"
    by (simp add: web3_def)
  have e: "calls st_console = []" by (simp add: st_console_def init_state_def)
  from Validate_console_cardinality [OF c(1) resolved_ok o n1, of PerLoop]
    Validate_console_cardinality [OF c(2) resolved_duo o n2, of PerLoop]
  show ?thesis by (simp add: e web3_def)
qed

text \<open>
  C10: the output directory is compared with the string \<^verbatim>\<open>"-"\<close> and nothing else.
  With at least one pod resolved: for every other string \<^verbatim>\<open>Validate\<close> returns what
  \<^verbatim>\<open>ParseDuration\<close> returns, whatever the number of pods and containers; with
  \<^verbatim>\<open>"-"\<close> the two cardinality checks come first.
\<close>

theorem Validate_console_sentinel:
  assumes "processResources (env_Visit env) = (pods, None)" and "pods \<noteq> []"
  shows "(outputDirectory (kCmd st) \<noteq> ''-'' \<longrightarrow>
        fst (Validate env st) = snd (env_ParseDuration env (traceTimeoutStr (kCmd st))))
     \<and> (outputDirectory (kCmd st) = ''-'' \<longrightarrow>
        fst (Validate env st) =
          (if 1 < length pods then Some ErrMultiplePodsStdout
           else if 1 < length (Containers (pods ! 0))
           then Some (ErrMultipleContainersStdout (Name (pods ! 0)))
           else snd (env_ParseDuration env (traceTimeoutStr (kCmd st)))))"
  by (simp add: Validate_resolved [OF assms])

theorem Validate_console_sentinel_witness:
  "outputDirectory (kCmd st_dashes) \<noteq> ''-'' \<and> fst (Validate env_ok st_dashes) = None
   \<and> outputDirectory (kCmd st_console) = ''-''
   \<and> fst (Validate env_ok st_console) = Some ErrMultiplePodsStdout"
proof -
  have ne: "[web1, web2] \<noteq> []" by simp
  have p: "env_ParseDuration env_ok = ParseDuration fl_float64" by (simp add: env_ok_def)
  have o1: "outputDirectory (kCmd st_dashes) \<noteq> ''-''"
    and t1: "traceTimeoutStr (kCmd st_dashes) = ''0''"
    by (simp_all add: st_dashes_def init_state_def NewKubeStraceDefaults_def)
  have o2: "outputDirectory (kCmd st_console) = ''-''"
    by (simp add: st_console_def init_state_def)
  from Validate_console_sentinel [OF resolved_ok ne, of st_dashes]
    Validate_console_sentinel [OF resolved_ok ne, of st_console] o1 o2
  show ?thesis by (simp add: p t1 ParseDuration_0)
qed

text \<open>
  C2, as amended: \<^verbatim>\<open>Validate\<close> returns nil only when \<^verbatim>\<open>time.ParseDuration\<close> accepts
  the trace-timeout string, and \<^verbatim>\<open>kCmd.traceTimeout\<close> is then the parsed duration;
  the sign of the duration is not checked.
\<close>

theorem Validate_timeout_parsed:
  assumes "fst (Validate env st) = None"
  shows "snd (env_ParseDuration env (traceTimeoutStr (kCmd st))) = None
     \<and> traceTimeout (kCmd (snd (Validate env st))) =
         fst (env_ParseDuration env (traceTimeoutStr (kCmd st)))"
  using assms by (auto simp: Validate_def Let_def split: prod.splits option.splits if_splits)

theorem Validate_timeout_parsed_witness:
  "fst (Validate env_one st_5s) = None
   \<and> ParseDuration fl_float64 ''5s'' = (5000000000, None)
   \<and> traceTimeout (kCmd (snd (Validate env_one st_5s))) = 5000000000"
proof -
  have p: "env_ParseDuration env_one = ParseDuration fl_float64"
    by (simp add: env_one_def env_ok_def)
  have t: "traceTimeoutStr (kCmd st_5s) = ''5s''"
    by (simp add: st_5s_def init_state_def)
  have ne: "[web1] \<noteq> []" by simp
  have v: "fst (Validate env_one st_5s) = None"
    by (simp add: Validate_resolved [OF resolved_one ne] p t ParseDuration_5s
        st_5s_def init_state_def NewKubeStraceDefaults_def web1_def)
  from v Validate_timeout_parsed [OF v] show ?thesis
    by (simp add: p t ParseDuration_5s)
qed

text \<open>
  The claim C2 as stated fails: \<^verbatim>\<open>time.ParseDuration\<close> accepts a leading minus sign,
  so on the flag \<^verbatim>\<open>"-5s"\<close>, with one pod resolved, \<^verbatim>\<open>Validate\<close> returns nil and the
  trace duration held is minus five seconds.
\<close>

theorem Validate_negative_timeout_counterexample:
  "fst (Validate env_one st_neg) = None
   \<and> sint (traceTimeout (kCmd (snd (Validate env_one st_neg)))) = - 5000000000"
proof -
  have p: "env_ParseDuration env_one = ParseDuration fl_float64"
    by (simp add: env_one_def env_ok_def)
  show ?thesis
    by (simp add: Validate_def resolved_one p st_neg_def init_state_def
        NewKubeStraceDefaults_def web1_def ParseDuration_minus_5s)
qed

section \<open>Construction of the tracers\<close>

text \<open>
  The first loop over any list of pods: the tracer objects and the pod variables it
  leaves. The loop over \<open>xs @ ys\<close> is the loop over \<open>xs\<close> followed by the iterations for
  \<open>ys\<close>, so the loop over the first \<open>i + 1\<close> pods ends in the state in which the
  \<open>i\<close>-th tracer has just been constructed.
\<close>

lemma range_loop_objs:
  "tracer_objs (range_loop lv ns pods st) =
     tracer_objs st @
       map (\<lambda>i. tracer_for (kCmd st) ns
              (case lv of PerLoop \<Rightarrow> length (pod_vars st) | PerIteration \<Rightarrow> length (pod_vars st) + i))
         [0..<length pods]"
  by (cases lv)
    (simp_all add: range_loop_def new_pod_var_def construct_loop_PerLoop
      construct_loop_PerIteration map_replicate_const)

lemma range_loop_pod_vars:
  "pod_vars (range_loop lv ns pods st) =
     (case lv of
        PerLoop \<Rightarrow> pod_vars st @ [if pods = [] then zero_Pod else last pods]
      | PerIteration \<Rightarrow> pod_vars st @ pods)"
  by (cases lv)
    (simp_all add: range_loop_def new_pod_var_def construct_loop_PerLoop
      construct_loop_PerIteration)

lemma construct_loop_PerIteration_addr:
  "construct_loop PerIteration ns a ps st = construct_loop PerIteration ns b ps st"
  by (simp add: construct_loop_PerIteration)

lemma construct_loop_append_PerLoop:
  "construct_loop PerLoop ns a (xs @ ys) st =
     construct_loop PerLoop ns a ys (construct_loop PerLoop ns a xs st)"
  by (induction xs arbitrary: st) (simp_all add: loop_var_def NewKStracer_def Let_def)

lemma construct_loop_append_PerIteration:
  "construct_loop PerIteration ns a (xs @ ys) st =
     construct_loop PerIteration ns b ys (construct_loop PerIteration ns a xs st)"
proof (induction xs arbitrary: st a)
  case Nil
  show ?case by (simp add: construct_loop_PerIteration_addr [of ns a ys _ b])
next
  case (Cons p xs)
  show ?case
    by (simp add: Cons.IH loop_var_def NewKStracer_def new_pod_var_def Let_def)
qed

lemma construct_loop_append:
  "construct_loop lv ns a (xs @ ys) st = construct_loop lv ns a ys (construct_loop lv ns a xs st)"
  by (cases lv) (simp_all add: construct_loop_append_PerLoop construct_loop_append_PerIteration)

lemma range_loop_append:
  "range_loop lv ns (xs @ ys) st =
     construct_loop lv ns (length (pod_vars st)) ys (range_loop lv ns xs st)"
proof (cases lv)
  case PerLoop
  then show ?thesis
    by (simp add: range_loop_def new_pod_var_def construct_loop_append)
next
  case PerIteration
  then show ?thesis
    using construct_loop_PerIteration_addr [of ns 0 ys]
    by (simp add: range_loop_def construct_loop_append)
qed

lemma nth_new_tracer:
  "i < length pods \<Longrightarrow>
   tracer_objs (range_loop lv ns pods st) ! (length (tracer_objs st) + i) =
     tracer_for (kCmd st) ns
       (case lv of PerLoop \<Rightarrow> length (pod_vars st) | PerIteration \<Rightarrow> length (pod_vars st) + i)"
  by (cases lv) (simp_all add: range_loop_objs nth_append)

lemma tracer_for_target: "tracerTarget (tracer_for k ns a) = a"
  by (simp add: tracer_for_def)

text \<open>
  \<^verbatim>\<open>RunE\<close> after a successful validation; \<^verbatim>\<open>Run\<close> when \<^verbatim>\<open>CreateNamespace\<close> returns
  an error; and the tracer objects and pod variables when \<^verbatim>\<open>Run\<close> returns: they are
  those the first loop left, since the second loop and the deferred calls only make
  calls. They are so at every call of \<^verbatim>\<open>Start\<close>.
\<close>

lemma RunE_validated:
  "env_Complete env = None \<Longrightarrow> fst (Validate env st) = None \<Longrightarrow>
   RunE lv env st = Run lv env (snd (Validate env st))"
  by (cases "Validate env st"; cases "Run lv env (snd (Validate env st))")
    (auto simp: RunE_def split: outcome.splits option.splits)

lemma Run_not_created:
  "env_CreateNamespace env = (ns, Some e) \<Longrightarrow>
   kCmd (snd (Run lv env st)) = kCmd st \<and> tracer_objs (snd (Run lv env st)) = tracer_objs st
   \<and> pod_vars (snd (Run lv env st)) = pod_vars st"
  by (cases ns) (simp_all add: Run_def Let_def)

lemma Run_first_loop:
  assumes "env_CreateNamespace env = (Some name, None)"
  shows "tracer_objs (snd (Run lv env st)) =
           tracer_objs (range_loop lv name (targetPods (kCmd st))
             (st\<lparr>calls := calls st @ [CreateNamespace (Some name) None]\<rparr>))
     \<and> pod_vars (snd (Run lv env st)) =
           pod_vars (range_loop lv name (targetPods (kCmd st))
             (st\<lparr>calls := calls st @ [CreateNamespace (Some name) None]\<rparr>))"
  by (simp add: Run_tracers [OF assms] construct_tracers_def)

lemma Validate_ns_fail_default:
  "Validate env_ns_fail st_default =
     (None, init_state (NewKubeStraceDefaults\<lparr>targetPods := [web1, web2]\<rparr>))"
proof -
  have p: "env_ParseDuration env_ns_fail = ParseDuration fl_float64"
    and v: "env_Visit env_ns_fail = env_Visit env_ok"
    by (simp_all add: env_ns_fail_def env_ok_def)
  show ?thesis
    unfolding Validate_def v resolved_ok p
    by (simp add: st_default_def init_state_def NewKubeStraceDefaults_def ParseDuration_0
        web1_def)
qed

text \<open>
  What the target of a tracer points to once the first loop has ended. With a
  variable per iteration, the target of the \<open>i\<close>-th new tracer holds the \<open>i\<close>-th
  target pod. With one variable for the loop, the target of every new tracer holds the
  last target pod.
\<close>

lemma loop_variable_per_iteration:
  assumes "env_CreateNamespace env = (Some name, None)" and "i < length (targetPods (kCmd st))"
  shows "pod_vars (snd (Run PerIteration env st)) !
           tracerTarget (tracer_objs (snd (Run PerIteration env st)) ! (length (tracer_objs st) + i)) =
         targetPods (kCmd st) ! i"
  using assms(2)
  by (simp add: Run_first_loop [OF assms(1)] range_loop_objs range_loop_pod_vars
      nth_append tracer_for_def)

lemma loop_variable_per_loop:
  assumes "env_CreateNamespace env = (Some name, None)" and "i < length (targetPods (kCmd st))"
  shows "pod_vars (snd (Run PerLoop env st)) !
           tracerTarget (tracer_objs (snd (Run PerLoop env st)) ! (length (tracer_objs st) + i)) =
         last (targetPods (kCmd st))"
  using assms(2)
  by (auto simp: Run_first_loop [OF assms(1)] range_loop_objs range_loop_pod_vars
      nth_append tracer_for_def)

text \<open>
  C1, as amended. When \<^verbatim>\<open>CreateNamespace\<close> returns a namespace and a nil error,
  \<^verbatim>\<open>Run\<close> with \<open>N\<close> target pods constructs exactly \<open>N\<close> tracers, after those already
  allocated, and appends the pointers to them to \<^verbatim>\<open>kCmd.tracers\<close> in the order of the
  targets; the tracer objects and the pod variables are those the first loop left,
  also when \<^verbatim>\<open>Start\<close> is called. For the \<open>i\<close>-th target: its tracer holds the flags of
  the command, the name of the run's namespace and a target address; in the state in
  which this tracer has just been constructed (the loop over the first \<open>i + 1\<close>
  targets, from which the loop goes on with the other targets) it is the last tracer
  allocated, and the pod variable at its target address holds the \<open>i\<close>-th target pod.
  Where every iteration has a variable of its own, that variable still holds the
  \<open>i\<close>-th target pod when \<^verbatim>\<open>Run\<close> returns, so also at every \<^verbatim>\<open>Start\<close>, and the new
  tracers have distinct targets. When \<^verbatim>\<open>CreateNamespace\<close> returns an error, \<^verbatim>\<open>Run\<close>
  constructs no tracer. What the variable holds at \<^verbatim>\<open>Start\<close> when the loop has one
  variable is left open here.
\<close>

theorem Run_constructs_tracers:
  fixes env :: env and lv :: loopvar and st :: state and name :: string
  defines "pods \<equiv> targetPods (kCmd st)"
    and "n \<equiv> length (tracer_objs st)"
    and "s1 \<equiv> st\<lparr>calls := calls st @ [CreateNamespace (Some name) None]\<rparr>"
    and "s' \<equiv> snd (Run lv env st)"
  shows
  "(env_CreateNamespace env = (Some name, None) \<longrightarrow>
      tracers (kCmd s') = tracers (kCmd st) @ [n ..< n + length pods]
    \<and> length (tracer_objs s') = n + length pods
    \<and> take n (tracer_objs s') = tracer_objs st
    \<and> tracer_objs s' = tracer_objs (range_loop lv name pods s1)
    \<and> pod_vars s' = pod_vars (range_loop lv name pods s1)
    \<and> (\<forall>i<length pods.
          tracer_objs s' ! (n + i) =
            tracer_for (kCmd st) name (tracerTarget (tracer_objs s' ! (n + i)))
        \<and> length (tracer_objs (range_loop lv name (take (Suc i) pods) s1)) = n + Suc i
        \<and> tracer_objs (range_loop lv name (take (Suc i) pods) s1) ! (n + i) =
            tracer_objs s' ! (n + i)
        \<and> tracerTarget (tracer_objs s' ! (n + i)) <
            length (pod_vars (range_loop lv name (take (Suc i) pods) s1))
        \<and> pod_vars (range_loop lv name (take (Suc i) pods) s1) !
            tracerTarget (tracer_objs s' ! (n + i)) = pods ! i
        \<and> range_loop lv name pods s1 =
            construct_loop lv name (length (pod_vars st)) (drop (Suc i) pods)
              (range_loop lv name (take (Suc i) pods) s1))
    \<and> (lv = PerIteration \<longrightarrow>
          (\<forall>i<length pods. pod_vars s' ! tracerTarget (tracer_objs s' ! (n + i)) = pods ! i)
        \<and> distinct (map tracerTarget (drop n (tracer_objs s')))))
   \<and> (env_CreateNamespace env = (ns, Some e) \<longrightarrow>
      tracers (kCmd s') = tracers (kCmd st) \<and> tracer_objs s' = tracer_objs st)"
proof (intro conjI impI allI)
  assume c: "env_CreateNamespace env = (Some name, None)"
  note F = Run_first_loop [OF c, of lv st, folded pods_def s1_def s'_def]
  have n1: "length (tracer_objs s1) = n" and k1: "kCmd s1 = kCmd st"
    and p1: "length (pod_vars s1) = length (pod_vars st)"
    by (simp_all add: s1_def n_def)
  show "tracers (kCmd s') = tracers (kCmd st) @ [n ..< n + length pods]"
    by (simp add: s'_def n_def pods_def Run_tracers [OF c] construct_tracers_tracers)
  show "length (tracer_objs s') = n + length pods"
    by (simp add: F range_loop_objs n1)
  show "take n (tracer_objs s') = tracer_objs st"
    by (simp add: F range_loop_objs n1 [symmetric]) (simp add: s1_def)
  show "tracer_objs s' = tracer_objs (range_loop lv name pods s1)" by (simp add: F)
  show "pod_vars s' = pod_vars (range_loop lv name pods s1)" by (simp add: F)
  {
    fix i assume i: "i < length pods"
    let ?si = "range_loop lv name (take (Suc i) pods) s1"
    let ?a = "case lv of PerLoop \<Rightarrow> length (pod_vars st) | PerIteration \<Rightarrow> length (pod_vars st) + i"
    have t: "tracer_objs s' ! (n + i) = tracer_for (kCmd st) name ?a"
      using nth_new_tracer [OF i, of lv name s1] by (cases lv) (simp_all add: F n1 k1 p1)
    have li: "i < length (take (Suc i) pods)" using i by simp
    have ti: "tracer_objs ?si ! (n + i) = tracer_for (kCmd st) name ?a"
      using nth_new_tracer [OF li, of lv name s1] by (cases lv) (simp_all add: n1 k1 p1)
    show "tracer_objs s' ! (n + i) =
            tracer_for (kCmd st) name (tracerTarget (tracer_objs s' ! (n + i)))"
      by (simp add: t tracer_for_target)
    show "length (tracer_objs ?si) = n + Suc i"
      using i by (simp add: range_loop_objs n1 min_def)
    show "tracer_objs ?si ! (n + i) = tracer_objs s' ! (n + i)"
      by (simp add: t ti)
    show "tracerTarget (tracer_objs s' ! (n + i)) < length (pod_vars ?si)"
      using i by (cases lv) (simp_all add: t tracer_for_target range_loop_pod_vars p1 min_def)
    have tk: "take (Suc i) pods = take i pods @ [pods ! i]"
      using i by (simp add: take_Suc_conv_app_nth)
    show "pod_vars ?si ! tracerTarget (tracer_objs s' ! (n + i)) = pods ! i"
      using i
      by (cases lv)
        (simp_all add: t tracer_for_target range_loop_pod_vars p1 [symmetric] nth_append tk)
    show "range_loop lv name pods s1 =
            construct_loop lv name (length (pod_vars st)) (drop (Suc i) pods) ?si"
      using range_loop_append [of lv name "take (Suc i) pods" "drop (Suc i) pods" s1]
      by (simp add: p1)
  }
  {
    assume lv: "lv = PerIteration"
    {
      fix i assume i: "i < length pods"
      show "pod_vars s' ! tracerTarget (tracer_objs s' ! (n + i)) = pods ! i"
        using loop_variable_per_iteration [OF c, of i st] i
        by (simp add: lv s'_def n_def pods_def)
    }
    show "distinct (map tracerTarget (drop n (tracer_objs s')))"
      by (simp add: F range_loop_objs n1 [symmetric] lv comp_def tracer_for_target
          distinct_map inj_on_def)
  }
next
  assume "env_CreateNamespace env = (ns, Some e)"
  from Run_not_created [OF this, of lv st]
  show "tracers (kCmd s') = tracers (kCmd st)" by (simp add: s'_def)
next
  assume "env_CreateNamespace env = (ns, Some e)"
  from Run_not_created [OF this, of lv st]
  show "tracer_objs s' = tracer_objs st" by (simp add: s'_def)
qed

theorem Run_constructs_tracers_witness:
  "env_CreateNamespace env_ok = (Some ''kstrace-1'', None)
   \<and> tracers (kCmd (snd (Run PerIteration env_ok st_two))) = [0, 1]
   \<and> length (tracer_objs (snd (Run PerIteration env_ok st_two))) = 2
   \<and> pod_vars (snd (Run PerIteration env_ok st_two)) !
        tracerTarget (tracer_objs (snd (Run PerIteration env_ok st_two)) ! 0) = web1
   \<and> pod_vars (snd (Run PerIteration env_ok st_two)) !
        tracerTarget (tracer_objs (snd (Run PerIteration env_ok st_two)) ! 1) = web2
   \<and> distinct (map tracerTarget (tracer_objs (snd (Run PerIteration env_ok st_two))))
   \<and> pod_vars (range_loop PerLoop ''kstrace-1'' [web1]
          (st_two\<lparr>calls := calls st_two @ [CreateNamespace (Some ''kstrace-1'') None]\<rparr>)) !
        tracerTarget (tracer_objs (snd (Run PerLoop env_ok st_two)) ! 0) = web1
   \<and> pod_vars (range_loop PerLoop ''kstrace-1'' [web1, web2]
          (st_two\<lparr>calls := calls st_two @ [CreateNamespace (Some ''kstrace-1'') None]\<rparr>)) !
        tracerTarget (tracer_objs (snd (Run PerLoop env_ok st_two)) ! 1) = web2
   \<and> env_CreateNamespace env_ns_fail = (Some [], Some (ErrExternal ''namespaces is forbidden''))
   \<and> tracer_objs (snd (Run PerIteration env_ns_fail st_two)) = []"
proof -
  have k: "env_CreateNamespace env_ok = (Some ''kstrace-1'', None)"
    by (simp add: env_ok_def)
  have n: "env_CreateNamespace env_ns_fail = (Some [], Some (ErrExternal ''namespaces is forbidden''))"
    by (simp add: env_ns_fail_def)
  have s: "targetPods (kCmd st_two) = [web1, web2]" "tracer_objs st_two = []"
    "tracers (kCmd st_two) = []"
    by (simp_all add: st_two_def init_state_def NewKubeStraceDefaults_def)
  have u: "[0..<2] = [0, 1::nat]" by (simp add: upt_rec)
  note I = Run_constructs_tracers [where env = env_ok and name = "''kstrace-1''"
      and lv = PerIteration and st = st_two and ns = None and e = ErrNoTargetPod,
      unfolded s, THEN conjunct1, THEN mp, OF k]
  note L = Run_constructs_tracers [where env = env_ok and name = "''kstrace-1''"
      and lv = PerLoop and st = st_two and ns = None and e = ErrNoTargetPod,
      unfolded s, THEN conjunct1, THEN mp, OF k]
  note N = Run_constructs_tracers [where env = env_ns_fail and name = "[]"
      and lv = PerIteration and st = st_two and ns = "Some []"
      and e = "ErrExternal ''namespaces is forbidden''",
      unfolded s, THEN conjunct2, THEN mp, OF n]
  note I7 = I [THEN conjunct2, THEN conjunct2, THEN conjunct2, THEN conjunct2,
      THEN conjunct2, THEN conjunct2, THEN mp, OF refl]
  note L6 = L [THEN conjunct2, THEN conjunct2, THEN conjunct2, THEN conjunct2,
      THEN conjunct2, THEN conjunct1]
  have 1: "tracers (kCmd (snd (Run PerIteration env_ok st_two))) = [0, 1]"
    using I [THEN conjunct1] by (simp add: u)
  have 2: "length (tracer_objs (snd (Run PerIteration env_ok st_two))) = 2"
    using I [THEN conjunct2, THEN conjunct1] by simp
  have 3: "pod_vars (snd (Run PerIteration env_ok st_two)) !
        tracerTarget (tracer_objs (snd (Run PerIteration env_ok st_two)) ! 0) = web1"
    using I7 [THEN conjunct1, rule_format, of 0] by simp
  have 4: "pod_vars (snd (Run PerIteration env_ok st_two)) !
        tracerTarget (tracer_objs (snd (Run PerIteration env_ok st_two)) ! 1) = web2"
    using I7 [THEN conjunct1, rule_format, of 1] by simp
  have 5: "distinct (map tracerTarget (tracer_objs (snd (Run PerIteration env_ok st_two))))"
    using I7 [THEN conjunct2] by simp
  have 6: "pod_vars (range_loop PerLoop ''kstrace-1'' [web1]
          (st_two\<lparr>calls := calls st_two @ [CreateNamespace (Some ''kstrace-1'') None]\<rparr>)) !
        tracerTarget (tracer_objs (snd (Run PerLoop env_ok st_two)) ! 0) = web1"
    using L6 [rule_format, of 0] by simp
  have 7: "pod_vars (range_loop PerLoop ''kstrace-1'' [web1, web2]
          (st_two\<lparr>calls := calls st_two @ [CreateNamespace (Some ''kstrace-1'') None]\<rparr>)) !
        tracerTarget (tracer_objs (snd (Run PerLoop env_ok st_two)) ! 1) = web2"
    using L6 [rule_format, of 1] by simp
  have 8: "tracer_objs (snd (Run PerIteration env_ns_fail st_two)) = []"
    using N by simp
  from k n 1 2 3 4 5 6 7 8 show ?thesis by blast
qed

text \<open>
  The claim C1 as stated fails on the default flags with the two pods \<open>web1\<close> and
  \<open>web2\<close> resolved and validated, when \<^verbatim>\<open>CreateNamespace\<close> returns a namespace
  object and an error: \<^verbatim>\<open>Run\<close> returns the error and has constructed no tracer for the
  two targets, whatever the scope of the loop variable.
\<close>

theorem Run_constructs_tracers_counterexample:
  "fst (Validate env_ns_fail st_default) = None
   \<and> fst (RunE PerLoop env_ns_fail st_default) =
       Return (Some (ErrExternal ''namespaces is forbidden''))
   \<and> length (targetPods (kCmd (snd (RunE PerLoop env_ns_fail st_default)))) = 2
   \<and> tracer_objs (snd (RunE PerLoop env_ns_fail st_default)) = []
   \<and> tracers (kCmd (snd (RunE PerLoop env_ns_fail st_default))) = []
   \<and> fst (RunE PerIteration env_ns_fail st_default) =
       Return (Some (ErrExternal ''namespaces is forbidden''))
   \<and> length (targetPods (kCmd (snd (RunE PerIteration env_ns_fail st_default)))) = 2
   \<and> tracer_objs (snd (RunE PerIteration env_ns_fail st_default)) = []
   \<and> tracers (kCmd (snd (RunE PerIteration env_ns_fail st_default))) = []"
proof -
  let ?st = "init_state (NewKubeStraceDefaults\<lparr>targetPods := [web1, web2]\<rparr>)"
  have c1: "env_Complete env_ns_fail = None"
    by (simp add: env_ns_fail_def env_ok_def)
  have v1: "fst (Validate env_ns_fail st_default) = None"
    by (simp add: Validate_ns_fail_default)
  have n: "env_CreateNamespace env_ns_fail = (Some [], Some (ErrExternal ''namespaces is forbidden''))"
    by (simp add: env_ns_fail_def)
  have r1: "RunE lv env_ns_fail st_default = Run lv env_ns_fail ?st" for lv
    by (simp add: RunE_validated [OF c1 v1] Validate_ns_fail_default)
  have f: "fst (Run lv env_ns_fail ?st) = Return (Some (ErrExternal ''namespaces is forbidden''))"
    for lv
    by (simp add: Run_def n Let_def)
  have i: "length (targetPods (kCmd ?st)) = 2" "tracer_objs ?st = []" "tracers (kCmd ?st) = []"
    by (simp_all add: init_state_def NewKubeStraceDefaults_def)
  have a: "fst (RunE lv env_ns_fail st_default) =
        Return (Some (ErrExternal ''namespaces is forbidden''))
      \<and> length (targetPods (kCmd (snd (RunE lv env_ns_fail st_default)))) = 2
      \<and> tracer_objs (snd (RunE lv env_ns_fail st_default)) = []
      \<and> tracers (kCmd (snd (RunE lv env_ns_fail st_default))) = []" for lv
    unfolding r1 using f [of lv] Run_not_created [OF n, of lv ?st] i by simp
  from v1 a [of PerLoop] a [of PerIteration] show ?thesis by simp
qed

end
